theory Spec2Isabelle
  imports Complex_Main "HOL-Library.AList"
begin

section \<open>Pressure-correction schemes for the Navier--Stokes equations\<close>

text \<open>
  A shallow embedding of \<^verbatim>\<open>flow/navier_stokes/pressure_correction.py\<close>.

  The module builds variational forms symbolically and hands them to the finite-element
  library for assembly and solution. The forms are modelled as syntax trees, built by
  the same operations in the same order as the source. The library is not part of the
  repository: its services (the pointwise operators, the integrals, the Newton solver and
  the Krylov solvers) are the fields of a record \<open>backend\<close> that every function takes
  as its first argument, so that each theorem holds for every library.

  Python floats and the values of \<^verbatim>\<open>Constant\<close> objects are real numbers.
  Exceptions are values: every function that can raise returns \<open>error + result\<close>,
  together with the world it leaves behind.
\<close>

subsection \<open>Symbolic expressions and forms\<close>

type_synonym space = nat
  \<comment> \<open>handle of a function space (with its mesh and element)\<close>

type_synonym bc = nat
  \<comment> \<open>handle of a Dirichlet boundary condition\<close>

text \<open>A \<^verbatim>\<open>Function\<close> object: the identity of its coefficient vector and its space.\<close>

datatype func = Func (fid: nat) (function_space: space)

datatype argument = TestFunction space | TrialFunction space

primrec arg_function_space :: "argument \<Rightarrow> space" where
  "arg_function_space (TestFunction V) = V"
| "arg_function_space (TrialFunction V) = V"

text \<open>
  \<open>FacetNormal V\<close> is the outward normal of the mesh of \<open>V\<close>; \<open>Identity V\<close> is the
  identity matrix whose size is the topological dimension of the cells of \<open>V\<close>.
\<close>

datatype ufl =
    Coefficient func
  | Constant real
  | Arg argument
  | FacetNormal space
  | Identity space
  | Grad ufl
  | Div ufl
  | Transposed ufl
  | Inner ufl ufl
  | Dot ufl ufl
  | Sum ufl ufl
  | Sub ufl ufl
  | Product ufl ufl
  | Division ufl ufl
  | Neg ufl

datatype integral = Dx ufl | Ds ufl

text \<open>A form is the list of its integrals, as in the library.\<close>

type_synonym form = "integral list"

definition mul_dx :: "ufl \<Rightarrow> form" where
  "mul_dx e = [Dx e]"

definition mul_ds :: "ufl \<Rightarrow> form" where
  "mul_ds e = [Ds e]"

primrec neg_integral :: "integral \<Rightarrow> integral" where
  "neg_integral (Dx e) = Dx (Neg e)"
| "neg_integral (Ds e) = Ds (Neg e)"

primrec scale_integral :: "ufl \<Rightarrow> integral \<Rightarrow> integral" where
  "scale_integral s (Dx e) = Dx (Product s e)"
| "scale_integral s (Ds e) = Ds (Product s e)"

definition form_add :: "form \<Rightarrow> form \<Rightarrow> form" where
  "form_add a b = a @ b"

definition form_neg :: "form \<Rightarrow> form" where
  "form_neg a = map neg_integral a"

definition form_sub :: "form \<Rightarrow> form \<Rightarrow> form" where
  "form_sub a b = form_add a (form_neg b)"

definition form_rmul :: "ufl \<Rightarrow> form \<Rightarrow> form" where
  "form_rmul s a = map (scale_integral s) a"

datatype jacobian = Derivative form func

definition derivative :: "form \<Rightarrow> func \<Rightarrow> jacobian" where
  "derivative F u = Derivative F u"

subsection \<open>Solver parameters, errors, the world\<close>

datatype param =
    PBool bool
  | PInt int
  | PReal real
  | PStr string
  | PDict "(string \<times> param) list"

datatype error = AssertionError | LookupError | TypeError | UFLException | RuntimeError

datatype message_event = Enter string | Exit string

text \<open>
  One entry per call into a solver of the library: the arguments it was given and,
  last, whether the solver reported convergence. For the Newton solver the arguments
  include the initial guess; for the Krylov solver they include the process-wide options
  in force, and the assembled operators, which are the functions that map test (and
  trial) functions to the value of the form.
\<close>

datatype 'a call =
    NonlinearSolve form func "bc list" jacobian 'a "(string \<times> param) list" bool
  | LinearSolve form form func "bc list" "(string \<times> param) list" bool
  | KrylovSolve string string "(string \<times> string) list"
      "'a \<Rightarrow> 'a \<Rightarrow> real" "'a \<Rightarrow> real" nat "(string \<times> param) list" bool

record 'a world =
  heap :: "nat \<Rightarrow> 'a"
  next_id :: nat
  petsc_options :: "(string \<times> string) list"
  calls :: "'a call list"
  messages :: "message_event list"

record 'a backend =
  b_zero :: "space \<Rightarrow> 'a"
  b_constant :: "real \<Rightarrow> 'a"
  b_normal :: "space \<Rightarrow> 'a"
  b_identity :: "space \<Rightarrow> 'a"
  b_grad :: "'a \<Rightarrow> 'a"
  b_div :: "'a \<Rightarrow> 'a"
  b_transposed :: "'a \<Rightarrow> 'a"
  b_inner :: "'a \<Rightarrow> 'a \<Rightarrow> 'a"
  b_dot :: "'a \<Rightarrow> 'a \<Rightarrow> 'a"
  b_sum :: "'a \<Rightarrow> 'a \<Rightarrow> 'a"
  b_sub :: "'a \<Rightarrow> 'a \<Rightarrow> 'a"
  b_product :: "'a \<Rightarrow> 'a \<Rightarrow> 'a"
  b_division :: "'a \<Rightarrow> 'a \<Rightarrow> 'a"
  b_neg :: "'a \<Rightarrow> 'a"
  int_dx :: "'a \<Rightarrow> real"
  int_ds :: "'a \<Rightarrow> real"
  newton_solver ::
    "('a \<Rightarrow> 'a \<Rightarrow> real) \<Rightarrow> jacobian \<Rightarrow> bc list \<Rightarrow> 'a \<Rightarrow> (string \<times> string) list
       \<Rightarrow> (string \<times> param) list \<Rightarrow> bool \<times> 'a"
  linear_solver ::
    "('a \<Rightarrow> 'a \<Rightarrow> real) \<Rightarrow> ('a \<Rightarrow> real) \<Rightarrow> bc list \<Rightarrow> 'a \<Rightarrow> (string \<times> string) list
       \<Rightarrow> (string \<times> param) list \<Rightarrow> bool \<times> 'a"
  krylov_solver ::
    "string \<Rightarrow> string \<Rightarrow> ('a \<Rightarrow> 'a \<Rightarrow> real) \<Rightarrow> ('a \<Rightarrow> real) \<Rightarrow> 'a \<Rightarrow> (string \<times> string) list
       \<Rightarrow> (string \<times> param) list \<Rightarrow> bool \<times> 'a"

subsection \<open>The value of an expression and of a form\<close>

text \<open>
  \<open>eval B h q p e\<close> is the value of \<open>e\<close> when the coefficient vectors are \<open>h\<close>, the
  test function is \<open>q\<close> and the trial function is \<open>p\<close> (a linear form has none, and
  gets the zero of the space).
\<close>

primrec eval :: "'a backend \<Rightarrow> (nat \<Rightarrow> 'a) \<Rightarrow> 'a \<Rightarrow> 'a option \<Rightarrow> ufl \<Rightarrow> 'a" where
  "eval B h q p (Coefficient f) = h (fid f)"
| "eval B h q p (Constant r) = b_constant B r"
| "eval B h q p (Arg a) =
     (case a of
        TestFunction V \<Rightarrow> q
      | TrialFunction V \<Rightarrow> (case p of Some x \<Rightarrow> x | None \<Rightarrow> b_zero B V))"
| "eval B h q p (FacetNormal V) = b_normal B V"
| "eval B h q p (Identity V) = b_identity B V"
| "eval B h q p (Grad e) = b_grad B (eval B h q p e)"
| "eval B h q p (Div e) = b_div B (eval B h q p e)"
| "eval B h q p (Transposed e) = b_transposed B (eval B h q p e)"
| "eval B h q p (Inner a b) = b_inner B (eval B h q p a) (eval B h q p b)"
| "eval B h q p (Dot a b) = b_dot B (eval B h q p a) (eval B h q p b)"
| "eval B h q p (Sum a b) = b_sum B (eval B h q p a) (eval B h q p b)"
| "eval B h q p (Sub a b) = b_sub B (eval B h q p a) (eval B h q p b)"
| "eval B h q p (Product a b) = b_product B (eval B h q p a) (eval B h q p b)"
| "eval B h q p (Division a b) = b_division B (eval B h q p a) (eval B h q p b)"
| "eval B h q p (Neg e) = b_neg B (eval B h q p e)"

primrec ival :: "'a backend \<Rightarrow> (nat \<Rightarrow> 'a) \<Rightarrow> 'a \<Rightarrow> 'a option \<Rightarrow> integral \<Rightarrow> real" where
  "ival B h q p (Dx e) = int_dx B (eval B h q p e)"
| "ival B h q p (Ds e) = int_ds B (eval B h q p e)"

definition fval :: "'a backend \<Rightarrow> (nat \<Rightarrow> 'a) \<Rightarrow> 'a \<Rightarrow> 'a option \<Rightarrow> form \<Rightarrow> real" where
  "fval B h q p F = sum_list (map (ival B h q p) F)"

definition assemble_matrix :: "'a backend \<Rightarrow> (nat \<Rightarrow> 'a) \<Rightarrow> form \<Rightarrow> 'a \<Rightarrow> 'a \<Rightarrow> real" where
  "assemble_matrix B h a = (\<lambda>p q. fval B h q (Some p) a)"

definition assemble_vector :: "'a backend \<Rightarrow> (nat \<Rightarrow> 'a) \<Rightarrow> form \<Rightarrow> 'a \<Rightarrow> real" where
  "assemble_vector B h L = (\<lambda>q. fval B h q None L)"

subsection \<open>The library's calls that change the world\<close>

text \<open>\<^verbatim>\<open>Function(V)\<close>: a new coefficient vector, all zero.\<close>

definition new_Function :: "'a backend \<Rightarrow> space \<Rightarrow> 'a world \<Rightarrow> func \<times> 'a world" where
  "new_Function B V w =
     (Func (next_id w) V,
      w\<lparr>heap := (heap w)(next_id w := b_zero B V), next_id := Suc (next_id w)\<rparr>)"

text \<open>\<^verbatim>\<open>a.assign(b)\<close>: copy the coefficients of \<open>b\<close> into \<open>a\<close>.\<close>

definition assign :: "func \<Rightarrow> func \<Rightarrow> 'a world \<Rightarrow> 'a world" where
  "assign a b w = w\<lparr>heap := (heap w)(fid a := heap w (fid b))\<rparr>"

text \<open>Subscription of a history container (\<^verbatim>\<open>u[0]\<close>, \<^verbatim>\<open>f[1]\<close>).\<close>

definition getitem :: "(int \<rightharpoonup> 'x) \<Rightarrow> int \<Rightarrow> error + 'x" where
  "getitem d k = (case d k of None \<Rightarrow> Inl LookupError | Some x \<Rightarrow> Inr x)"

text \<open>
  The flag \<^verbatim>\<open>error_on_nonconvergence\<close> of a parameter dictionary; the library's
  default is \<open>True\<close>.
\<close>

definition error_on_nonconvergence :: "(string \<times> param) list \<Rightarrow> bool" where
  "error_on_nonconvergence ps =
     (case map_of ps ''error_on_nonconvergence'' of
        Some (PBool b) \<Rightarrow> b
      | _ \<Rightarrow> True)"

definition sub_parameters :: "(string \<times> param) list \<Rightarrow> string \<Rightarrow> (string \<times> param) list" where
  "sub_parameters ps k = (case map_of ps k of Some (PDict d) \<Rightarrow> d | _ \<Rightarrow> [])"

text \<open>
  \<^verbatim>\<open>solve(F == 0, u, bcs=bcs, J=J, solver_parameters=ps)\<close>: the Newton solver starts
  from the current coefficients of \<open>u\<close>, and leaves its last iterate there. The residual
  it sees is the value of \<open>F\<close> as a function of the coefficients of \<open>u\<close> and of the
  test function.
\<close>

definition solve_nonlinear ::
  "'a backend \<Rightarrow> form \<Rightarrow> func \<Rightarrow> bc list \<Rightarrow> jacobian \<Rightarrow> (string \<times> param) list
     \<Rightarrow> 'a world \<Rightarrow> (error + unit) \<times> 'a world" where
  "solve_nonlinear B F u bcs J ps w =
     (let guess = heap w (fid u);
          residual = (\<lambda>x q. fval B ((heap w)(fid u := x)) q None F);
          r = newton_solver B residual J bcs guess (petsc_options w) ps;
          w' = w\<lparr>heap := (heap w)(fid u := snd r),
                 calls := calls w @ [NonlinearSolve F u bcs J guess ps (fst r)]\<rparr>
      in if \<not> fst r \<and> error_on_nonconvergence (sub_parameters ps ''newton_solver'')
         then (Inl RuntimeError, w')
         else (Inr (), w'))"

text \<open>\<^verbatim>\<open>solve(a == L, u, bcs=bcs, solver_parameters=ps)\<close>.\<close>

definition solve_linear ::
  "'a backend \<Rightarrow> form \<Rightarrow> form \<Rightarrow> func \<Rightarrow> bc list \<Rightarrow> (string \<times> param) list
     \<Rightarrow> 'a world \<Rightarrow> (error + unit) \<times> 'a world" where
  "solve_linear B a L u bcs ps w =
     (let r = linear_solver B (assemble_matrix B (heap w) a) (assemble_vector B (heap w) L)
                bcs (heap w (fid u)) (petsc_options w) ps;
          w' = w\<lparr>heap := (heap w)(fid u := snd r),
                 calls := calls w @ [LinearSolve a L u bcs ps (fst r)]\<rparr>
      in if \<not> fst r \<and> error_on_nonconvergence (sub_parameters ps ''krylov_solver'')
         then (Inl RuntimeError, w')
         else (Inr (), w'))"

text \<open>
  \<^verbatim>\<open>PETScKrylovSolver(method, prec)\<close> with parameters \<open>ps\<close> and operator \<open>A\<close>,
  then \<^verbatim>\<open>solver.solve(x, b)\<close> where \<open>x\<close> is the coefficient vector with identity
  \<open>x_id\<close>.
\<close>

definition krylov_solve ::
  "'a backend \<Rightarrow> string \<Rightarrow> string \<Rightarrow> (string \<times> param) list \<Rightarrow> ('a \<Rightarrow> 'a \<Rightarrow> real)
     \<Rightarrow> nat \<Rightarrow> ('a \<Rightarrow> real) \<Rightarrow> 'a world \<Rightarrow> (error + unit) \<times> 'a world" where
  "krylov_solve B method prec ps A x_id b w =
     (let r = krylov_solver B method prec A b (heap w x_id) (petsc_options w) ps;
          w' = w\<lparr>heap := (heap w)(x_id := snd r),
                 calls := calls w @ [KrylovSolve method prec (petsc_options w) A b x_id ps (fst r)]\<rparr>
      in if \<not> fst r \<and> error_on_nonconvergence ps
         then (Inl RuntimeError, w')
         else (Inr (), w'))"

text \<open>\<^verbatim>\<open>PETScOptions.set(k, v)\<close>: a process-wide option.\<close>

definition PETScOptions_set :: "string \<Rightarrow> string \<Rightarrow> 'a world \<Rightarrow> 'a world" where
  "PETScOptions_set k v w = w\<lparr>petsc_options := AList.update k v (petsc_options w)\<rparr>"

text \<open>
  Modelled from the spec: \<^verbatim>\<open>flow/message.py\<close> (the class \<^verbatim>\<open>Message\<close>) is not among
  the sources. The spec describes it as a scoped announcement around each sub-solve with
  a guaranteed exit notification on every return and error path.
\<close>

definition Message ::
  "string \<Rightarrow> ('a world \<Rightarrow> 'r \<times> 'a world) \<Rightarrow> 'a world \<Rightarrow> 'r \<times> 'a world" where
  "Message s body w =
     (let r = body (w\<lparr>messages := messages w @ [Enter s]\<rparr>)
      in (fst r, (snd r)\<lparr>messages := messages (snd r) @ [Exit s]\<rparr>))"

subsection \<open>The right-hand side of the momentum equation\<close>

definition epsilon :: "ufl \<Rightarrow> ufl" where
  "epsilon u = Product (Constant (1/2)) (Sum (Grad u) (Transposed (Grad u)))"

definition sigma :: "real \<Rightarrow> func \<Rightarrow> func \<Rightarrow> ufl" where
  "sigma mu u p =
     Sub (Product (Product (Constant 2) (Constant mu)) (epsilon (Coefficient u)))
         (Product (Coefficient p) (Identity (function_space u)))"

definition rhs_weak :: "func \<Rightarrow> argument \<Rightarrow> ufl \<Rightarrow> real \<Rightarrow> real \<Rightarrow> func \<Rightarrow> form" where
  "rhs_weak u v f rho mu p0 =
     (let normal = FacetNormal (arg_function_space v) in
      form_add
        (form_sub
          (form_sub
            (form_sub
              (mul_dx (Inner f (Arg v)))
              (mul_dx (Product (Product (Constant rho) (Constant (1/2)))
                 (Sub (Inner (Product (Grad (Coefficient u)) (Coefficient u)) (Arg v))
                      (Inner (Product (Grad (Arg v)) (Coefficient u)) (Coefficient u))))))
            (mul_dx (Inner (sigma mu u p0) (epsilon (Arg v)))))
          (mul_ds (Inner (Product (Coefficient p0) normal) (Arg v))))
        (mul_ds (Product (Constant mu)
           (Inner (Product (Transposed (Grad (Coefficient u))) normal) (Arg v)))))"

subsection \<open>Tentative velocity\<close>

text \<open>The residual \<open>F1\<close> and the weight \<open>alpha\<close>, by time-stepping method.\<close>

definition tentative_residual ::
  "func \<Rightarrow> (int \<rightharpoonup> func) \<Rightarrow> func \<Rightarrow> (int \<rightharpoonup> ufl) \<Rightarrow> string \<Rightarrow> real \<Rightarrow> real \<Rightarrow> real
     \<Rightarrow> argument \<Rightarrow> error + (real \<times> form)" where
  "tentative_residual ui u p0 f time_step_method rho mu dt v =
     (if time_step_method = ''forward euler'' then
        (case getitem u 0 of Inl e \<Rightarrow> Inl e | Inr u0 \<Rightarrow>
        (case getitem f 0 of Inl e \<Rightarrow> Inl e | Inr f0 \<Rightarrow>
           Inr (1,
             form_sub
               (mul_dx (Inner (Sub (Coefficient ui) (Coefficient u0)) (Arg v)))
               (form_rmul (Division (Constant dt) (Constant rho))
                  (rhs_weak u0 v f0 rho mu p0)))))
      else if time_step_method = ''backward euler'' then
        (case getitem u 0 of Inl e \<Rightarrow> Inl e | Inr u0 \<Rightarrow>
        (case getitem f 1 of Inl e \<Rightarrow> Inl e | Inr f1 \<Rightarrow>
           Inr (1,
             form_sub
               (mul_dx (Inner (Sub (Coefficient ui) (Coefficient u0)) (Arg v)))
               (form_rmul (Division (Constant dt) (Constant rho))
                  (rhs_weak ui v f1 rho mu p0)))))
      else if time_step_method \<noteq> ''crank-nicolson'' then Inl AssertionError
      else
        (case getitem u 0 of Inl e \<Rightarrow> Inl e | Inr u0 \<Rightarrow>
        (case getitem f 0 of Inl e \<Rightarrow> Inl e | Inr f0 \<Rightarrow>
        (case getitem f 1 of Inl e \<Rightarrow> Inl e | Inr f1 \<Rightarrow>
           Inr (1,
             form_sub
               (mul_dx (Inner (Sub (Coefficient ui) (Coefficient u0)) (Arg v)))
               (form_rmul (Product (Division (Constant dt) (Constant rho)) (Constant (1/2)))
                  (form_add (rhs_weak u0 v f0 rho mu p0) (rhs_weak ui v f1 rho mu p0))))))))"

definition newton_parameters :: "real \<Rightarrow> (string \<times> param) list" where
  "newton_parameters tol =
     [(''nonlinear_solver'', PStr ''newton''),
      (''newton_solver'', PDict
         [(''maximum_iterations'', PInt 10),
          (''report'', PBool True),
          (''absolute_tolerance'', PReal tol),
          (''relative_tolerance'', PReal 0),
          (''error_on_nonconvergence'', PBool True)])]"

definition compute_tentative_velocity ::
  "'a backend \<Rightarrow> (int \<rightharpoonup> func) \<Rightarrow> func \<Rightarrow> (int \<rightharpoonup> ufl) \<Rightarrow> bc list \<Rightarrow> string
     \<Rightarrow> real \<Rightarrow> real \<Rightarrow> real \<Rightarrow> argument \<Rightarrow> real
     \<Rightarrow> 'a world \<Rightarrow> (error + (func \<times> real)) \<times> 'a world" where
  "compute_tentative_velocity B u p0 f u_bcs time_step_method rho mu dt v tol w =
     (case getitem u 0 of
        Inl e \<Rightarrow> (Inl e, w)
      | Inr u0 \<Rightarrow>
         (let a = new_Function B (function_space u0) w; ui = fst a; w1 = snd a in
          case tentative_residual ui u p0 f time_step_method rho mu dt v of
            Inl e \<Rightarrow> (Inl e, w1)
          | Inr (alpha, F1) \<Rightarrow>
             (let J = derivative F1 ui;
                  w2 = assign ui u0 w1;
                  r = solve_nonlinear B F1 ui u_bcs J (newton_parameters tol) w2
              in case fst r of
                   Inl e \<Rightarrow> (Inl e, snd r)
                 | Inr _ \<Rightarrow> (Inr (ui, alpha), snd r))))"

subsection \<open>Pressure\<close>

text \<open>The truth value of \<^verbatim>\<open>p_bcs\<close>: neither \<^verbatim>\<open>None\<close> nor an empty list.\<close>

definition truthy :: "'x list option \<Rightarrow> bool" where
  "truthy xs = (case xs of None \<Rightarrow> False | Some [] \<Rightarrow> False | Some (y # ys) \<Rightarrow> True)"

definition linear_parameters :: "real \<Rightarrow> bool \<Rightarrow> (string \<times> param) list" where
  "linear_parameters tol verbose =
     [(''linear_solver'', PStr ''iterative''),
      (''symmetric'', PBool True),
      (''preconditioner'', PStr ''hypre_amg''),
      (''krylov_solver'', PDict
         [(''relative_tolerance'', PReal tol),
          (''absolute_tolerance'', PReal 0),
          (''maximum_iterations'', PInt 100),
          (''monitor_convergence'', PBool verbose),
          (''error_on_nonconvergence'', PBool True)])]"

text \<open>The parameters set on the Krylov solver of the pure Neumann problem.\<close>

definition neumann_parameters :: "real \<Rightarrow> bool \<Rightarrow> (string \<times> param) list" where
  "neumann_parameters tol verbose =
     [(''absolute_tolerance'', PReal 0),
      (''relative_tolerance'', PReal tol),
      (''maximum_iterations'', PInt 1000),
      (''monitor_convergence'', PBool verbose),
      (''error_on_nonconvergence'', PBool True)]"

text \<open>The forms of the pressure Poisson problem.\<close>

definition pressure_a2 :: "space \<Rightarrow> form" where
  "pressure_a2 P =
     mul_dx (Dot (Grad (Arg (TrialFunction P))) (Grad (Arg (TestFunction P))))"

definition pressure_L2 ::
  "space \<Rightarrow> func \<Rightarrow> real \<Rightarrow> real \<Rightarrow> real \<Rightarrow> real \<Rightarrow> ufl \<Rightarrow> bool \<Rightarrow> form" where
  "pressure_L2 P p0 alpha rho dt mu div_ui rotational_form =
     (let q = TestFunction P;
          L2 = mul_dx (Product (Product
                 (Division (Product (Constant (- alpha)) (Constant rho)) (Constant dt))
                 div_ui) (Arg q));
          L2' = form_add L2 (mul_dx (Dot (Grad (Coefficient p0)) (Grad (Arg q))))
      in if rotational_form
         then form_sub L2' (mul_dx (Product (Constant mu) (Dot (Grad div_ui) (Grad (Arg q)))))
         else L2')"

definition compute_pressure ::
  "'a backend \<Rightarrow> func option \<Rightarrow> real \<Rightarrow> real \<Rightarrow> real \<Rightarrow> real \<Rightarrow> ufl \<Rightarrow> bc list option
     \<Rightarrow> space option \<Rightarrow> bool \<Rightarrow> real \<Rightarrow> bool
     \<Rightarrow> 'a world \<Rightarrow> (error + func) \<times> 'a world" where
  "compute_pressure B p0 alpha rho dt mu div_ui p_bcs p_function_space rotational_form
       tol verbose w =
     (case (case p0 of Some p \<Rightarrow> Some (function_space p) | None \<Rightarrow> p_function_space) of
        None \<Rightarrow> (Inl TypeError, w)
      | Some P \<Rightarrow>
         (let a = new_Function B P w; p1 = fst a; w1 = snd a in
          case p0 of
            None \<Rightarrow> (Inl UFLException, w1)
          | Some p0' \<Rightarrow>
             (let a2 = pressure_a2 P;
                  L2 = pressure_L2 P p0' alpha rho dt mu div_ui rotational_form
              in if truthy p_bcs then
                   (let r = solve_linear B a2 L2 p1 (case p_bcs of Some bs \<Rightarrow> bs | None \<Rightarrow> [])
                              (linear_parameters tol verbose) w1
                    in case fst r of
                         Inl e \<Rightarrow> (Inl e, snd r)
                       | Inr _ \<Rightarrow> (Inr p1, snd r))
                 else
                   (let A = assemble_matrix B (heap w1) a2;
                        b = assemble_vector B (heap w1) L2;
                        w2 = PETScOptions_set ''pc_hypre_boomeramg_relax_type_coarse''
                               ''jacobi'' w1;
                        r = krylov_solve B ''cg'' ''hypre_amg''
                              (neumann_parameters tol verbose) A (fid p1) b w2
                    in case fst r of
                         Inl e \<Rightarrow> (Inl e, snd r)
                       | Inr _ \<Rightarrow> (Inr p1, snd r)))))"

subsection \<open>Velocity correction\<close>

definition correction_phi :: "func \<Rightarrow> func \<Rightarrow> func \<Rightarrow> real \<Rightarrow> bool \<Rightarrow> ufl" where
  "correction_phi ui p1 p0 mu rotational_form =
     (let phi = Sub (Coefficient p1) (Coefficient p0)
      in if rotational_form
         then Sum phi (Product (Constant mu) (Div (Coefficient ui)))
         else phi)"

definition compute_velocity_correction ::
  "'a backend \<Rightarrow> func \<Rightarrow> (int \<rightharpoonup> func) \<Rightarrow> bc list \<Rightarrow> func \<Rightarrow> func \<Rightarrow> argument
     \<Rightarrow> real \<Rightarrow> real \<Rightarrow> real \<Rightarrow> bool \<Rightarrow> real \<Rightarrow> bool
     \<Rightarrow> 'a world \<Rightarrow> (error + func) \<times> 'a world" where
  "compute_velocity_correction B ui u u_bcs p1 p0 v mu rho dt rotational_form tol verbose w =
     (case getitem u 0 of
        Inl e \<Rightarrow> (Inl e, w)
      | Inr u0 \<Rightarrow>
         (let u2 = TrialFunction (function_space u0);
              a3 = mul_dx (Inner (Arg u2) (Arg v));
              phi = correction_phi ui p1 p0 mu rotational_form;
              L3 = form_sub
                     (mul_dx (Inner (Coefficient ui) (Arg v)))
                     (mul_dx (Product (Division (Constant dt) (Constant rho))
                                (Inner (Grad phi) (Arg v))));
              a = new_Function B (function_space u0) w; u1 = fst a; w1 = snd a;
              r = solve_linear B a3 L3 u1 u_bcs (linear_parameters tol verbose) w1
          in case fst r of
               Inl e \<Rightarrow> (Inl e, snd r)
             | Inr _ \<Rightarrow> (Inr u1, snd r)))"

subsection \<open>One time step\<close>

definition step ::
  "'a backend \<Rightarrow> real \<Rightarrow> (int \<rightharpoonup> func) \<Rightarrow> func \<Rightarrow> bc list \<Rightarrow> bc list option \<Rightarrow> real \<Rightarrow> real
     \<Rightarrow> string \<Rightarrow> (int \<rightharpoonup> ufl) \<Rightarrow> bool \<Rightarrow> bool \<Rightarrow> real
     \<Rightarrow> 'a world \<Rightarrow> (error + (func \<times> func)) \<times> 'a world" where
  "step B dt u p0 u_bcs p_bcs rho mu time_step_method f rotational_form verbose tol w =
     (if \<not> dt > 0 then (Inl AssertionError, w)
      else if \<not> mu > 0 then (Inl AssertionError, w)
      else
        (case getitem u 0 of
           Inl e \<Rightarrow> (Inl e, w)
         | Inr u0 \<Rightarrow>
            (let v = TestFunction (function_space u0);
                 r1 = Message ''Computing tentative velocity''
                        (compute_tentative_velocity B u p0 f u_bcs time_step_method
                           rho mu dt v (1 / 10 ^ 10)) w
             in case fst r1 of
                  Inl e \<Rightarrow> (Inl e, snd r1)
                | Inr (ui, alpha) \<Rightarrow>
                   (let r2 = Message ''Computing pressure''
                               (compute_pressure B (Some p0) alpha rho dt mu
                                  (Div (Coefficient ui)) p_bcs None rotational_form
                                  tol verbose) (snd r1)
                    in case fst r2 of
                         Inl e \<Rightarrow> (Inl e, snd r2)
                       | Inr p1 \<Rightarrow>
                          (let r3 = Message ''Computing velocity correction''
                                      (compute_velocity_correction B ui u u_bcs p1 p0 v
                                         mu rho dt rotational_form tol verbose) (snd r2)
                           in case fst r3 of
                                Inl e \<Rightarrow> (Inl e, snd r3)
                              | Inr u1 \<Rightarrow> (Inr (u1, p1), snd r3))))))"

subsection \<open>The three schemes\<close>

definition Chorin_order :: "(string \<times> real) list" where
  "Chorin_order = [(''velocity'', 1), (''pressure'', 1/2)]"

definition Chorin_step ::
  "'a backend \<Rightarrow> real \<Rightarrow> (int \<rightharpoonup> func) \<Rightarrow> func \<Rightarrow> bc list \<Rightarrow> bc list option \<Rightarrow> real \<Rightarrow> real
     \<Rightarrow> (int \<rightharpoonup> ufl) \<Rightarrow> bool \<Rightarrow> real
     \<Rightarrow> 'a world \<Rightarrow> (error + (func \<times> func)) \<times> 'a world" where
  "Chorin_step B dt u p0 u_bcs p_bcs rho mu f verbose tol w =
     (let a = new_Function B (function_space p0) w
      in step B dt u (fst a) u_bcs p_bcs rho mu ''backward euler'' f False verbose tol (snd a))"

datatype IPCS = IPCS (IPCS_time_step_method: string)

definition IPCS_init :: "string option \<Rightarrow> IPCS" where
  "IPCS_init m = IPCS (case m of None \<Rightarrow> ''backward euler'' | Some s \<Rightarrow> s)"

definition IPCS_order :: "(string \<times> real) list" where
  "IPCS_order = [(''velocity'', 2), (''pressure'', 1)]"

definition IPCS_step ::
  "'a backend \<Rightarrow> IPCS \<Rightarrow> real \<Rightarrow> (int \<rightharpoonup> func) \<Rightarrow> func \<Rightarrow> bc list \<Rightarrow> bc list option
     \<Rightarrow> real \<Rightarrow> real \<Rightarrow> (int \<rightharpoonup> ufl) \<Rightarrow> bool \<Rightarrow> real
     \<Rightarrow> 'a world \<Rightarrow> (error + (func \<times> func)) \<times> 'a world" where
  "IPCS_step B self dt u p0 u_bcs p_bcs rho mu f verbose tol w =
     step B dt u p0 u_bcs p_bcs rho mu (IPCS_time_step_method self) f False verbose tol w"

datatype Rotational = Rotational (Rotational_time_step_method: string)

definition Rotational_init :: "string option \<Rightarrow> Rotational" where
  "Rotational_init m = Rotational (case m of None \<Rightarrow> ''backward euler'' | Some s \<Rightarrow> s)"

definition Rotational_order :: "(string \<times> real) list" where
  "Rotational_order = [(''velocity'', 2), (''pressure'', 3/2)]"

definition Rotational_step ::
  "'a backend \<Rightarrow> Rotational \<Rightarrow> real \<Rightarrow> (int \<rightharpoonup> func) \<Rightarrow> func \<Rightarrow> bc list \<Rightarrow> bc list option
     \<Rightarrow> real \<Rightarrow> real \<Rightarrow> (int \<rightharpoonup> ufl) \<Rightarrow> bool \<Rightarrow> real
     \<Rightarrow> 'a world \<Rightarrow> (error + (func \<times> func)) \<times> 'a world" where
  "Rotational_step B self dt u p0 u_bcs p_bcs rho mu f verbose tol w =
     step B dt u p0 u_bcs p_bcs rho mu (Rotational_time_step_method self) f True verbose tol w"

subsection \<open>A small library to run the schemes on\<close>

text \<open>
  Fields with a single real degree of freedom: every differential operator is the
  identity, every product is the product of reals, and both integrals are the
  identity. The three flags say whether the Newton solver, the variational linear
  solver and the Krylov solver report convergence. The Newton solver returns its
  initial guess; the linear solvers return the exact solution \<open>b 1 / A 1 1\<close>.
\<close>

definition scalar_backend :: "bool \<Rightarrow> bool \<Rightarrow> bool \<Rightarrow> real backend" where
  "scalar_backend nc lc kc =
     \<lparr>b_zero = (\<lambda>V. 0), b_constant = (\<lambda>r. r), b_normal = (\<lambda>V. 1), b_identity = (\<lambda>V. 1),
      b_grad = (\<lambda>x. x), b_div = (\<lambda>x. x), b_transposed = (\<lambda>x. x),
      b_inner = (\<lambda>x y. x * y), b_dot = (\<lambda>x y. x * y),
      b_sum = (\<lambda>x y. x + y), b_sub = (\<lambda>x y. x - y),
      b_product = (\<lambda>x y. x * y), b_division = (\<lambda>x y. x / y), b_neg = (\<lambda>x. - x),
      int_dx = (\<lambda>x. x), int_ds = (\<lambda>x. x),
      newton_solver = (\<lambda>R J bcs guess opts ps. (nc, guess)),
      linear_solver = (\<lambda>A b bcs x0 opts ps. (lc, b 1 / A 1 1)),
      krylov_solver = (\<lambda>m pc A b x0 opts ps. (kc, b 1 / A 1 1))\<rparr>"

text \<open>
  A world with three fields: the velocities \<open>u[0]\<close> and \<open>u[-1]\<close> (identities 0 and 1)
  and the pressure (identity 2).
\<close>

definition world0 :: "real world" where
  "world0 = \<lparr>heap = (\<lambda>i. if i = 0 then 3 else if i = 1 then 2 else if i = 2 then 5 else 0),
             next_id = 3, petsc_options = [], calls = [], messages = []\<rparr>"

definition u_hist :: "int \<rightharpoonup> func" where
  "u_hist = [0 \<mapsto> Func 0 0, -1 \<mapsto> Func 1 0]"

definition f_hist :: "int \<rightharpoonup> ufl" where
  "f_hist = [0 \<mapsto> Constant 0, 1 \<mapsto> Constant 0]"

text \<open>
  Fields \<open>a + b x\<close> on the unit interval, as pairs \<open>(a, b)\<close>: the gradient and the
  divergence are the slope, products drop the quadratic term, \<open>dx\<close> integrates over
  the interval and \<open>ds\<close> sums the two end points. The Newton solver returns its initial
  guess; the linear solvers return the right-hand side tested with \<open>1\<close> and with \<open>x\<close>.
  In \<open>world1\<close> the velocity \<open>u[0]\<close> is \<open>x\<close>: its divergence is the constant 1.
\<close>

definition affine_backend :: "(real \<times> real) backend" where
  "affine_backend =
     \<lparr>b_zero = (\<lambda>V. (0, 0)), b_constant = (\<lambda>r. (r, 0)),
      b_normal = (\<lambda>V. (1, 0)), b_identity = (\<lambda>V. (1, 0)),
      b_grad = (\<lambda>x. (snd x, 0)), b_div = (\<lambda>x. (snd x, 0)), b_transposed = (\<lambda>x. x),
      b_inner = (\<lambda>x y. (fst x * fst y, fst x * snd y + snd x * fst y)),
      b_dot = (\<lambda>x y. (fst x * fst y, fst x * snd y + snd x * fst y)),
      b_sum = (\<lambda>x y. (fst x + fst y, snd x + snd y)),
      b_sub = (\<lambda>x y. (fst x - fst y, snd x - snd y)),
      b_product = (\<lambda>x y. (fst x * fst y, fst x * snd y + snd x * fst y)),
      b_division = (\<lambda>x y. (fst x / fst y, snd x / fst y)),
      b_neg = (\<lambda>x. (- fst x, - snd x)),
      int_dx = (\<lambda>x. fst x + snd x / 2), int_ds = (\<lambda>x. 2 * fst x + snd x),
      newton_solver = (\<lambda>R J bcs guess opts ps. (True, guess)),
      linear_solver = (\<lambda>A b bcs x0 opts ps. (True, (b (1, 0), b (0, 1)))),
      krylov_solver = (\<lambda>m pc A b x0 opts ps. (True, (b (1, 0), b (0, 1))))\<rparr>"

definition world1 :: "(real \<times> real) world" where
  "world1 = \<lparr>heap = (\<lambda>i. if i = 0 then (0, 1) else (0, 0)),
             next_id = 3, petsc_options = [], calls = [], messages = []\<rparr>"

subsection \<open>Outcomes of the sub-solves\<close>

text \<open>
  The result and the world after a sub-solve that allocated the field \<open>ui\<close> (or
  \<open>u1\<close>, \<open>p1\<close>) in the world \<open>w\<close> and called one solver, which reported
  \<open>conv\<close> and left the coefficients \<open>x\<close>.
\<close>

definition after_newton ::
  "'a world \<Rightarrow> func \<Rightarrow> real \<Rightarrow> form \<Rightarrow> bc list \<Rightarrow> 'a \<Rightarrow> (string \<times> param) list \<Rightarrow> bool \<Rightarrow> 'a
     \<Rightarrow> (error + (func \<times> real)) \<times> 'a world" where
  "after_newton w ui alpha F1 bcs guess ps conv x =
     (if conv then Inr (ui, alpha) else Inl RuntimeError,
      w\<lparr>heap := (heap w)(fid ui := x), next_id := Suc (next_id w),
        calls := calls w @ [NonlinearSolve F1 ui bcs (Derivative F1 ui) guess ps conv]\<rparr>)"

definition after_linear ::
  "'a world \<Rightarrow> func \<Rightarrow> form \<Rightarrow> form \<Rightarrow> bc list \<Rightarrow> (string \<times> param) list \<Rightarrow> bool \<Rightarrow> 'a
     \<Rightarrow> (error + func) \<times> 'a world" where
  "after_linear w u1 a L bcs ps conv x =
     (if conv then Inr u1 else Inl RuntimeError,
      w\<lparr>heap := (heap w)(fid u1 := x), next_id := Suc (next_id w),
        calls := calls w @ [LinearSolve a L u1 bcs ps conv]\<rparr>)"

definition after_krylov ::
  "'a world \<Rightarrow> func \<Rightarrow> string \<Rightarrow> string \<Rightarrow> (string \<times> string) list \<Rightarrow> ('a \<Rightarrow> 'a \<Rightarrow> real)
     \<Rightarrow> ('a \<Rightarrow> real) \<Rightarrow> (string \<times> param) list \<Rightarrow> bool \<Rightarrow> 'a
     \<Rightarrow> (error + func) \<times> 'a world" where
  "after_krylov w p1 method prec opts A b ps conv x =
     (if conv then Inr p1 else Inl RuntimeError,
      w\<lparr>heap := (heap w)(fid p1 := x), next_id := Suc (next_id w),
        petsc_options := opts,
        calls := calls w @ [KrylovSolve method prec opts A b (fid p1) ps conv]\<rparr>)"

text \<open>The relative tolerance a recorded linear solver call was given.\<close>

definition krylov_tolerance :: "'a call \<Rightarrow> param option" where
  "krylov_tolerance c =
     (case c of
        LinearSolve a L u bcs ps conv \<Rightarrow>
          map_of (sub_parameters ps ''krylov_solver'') ''relative_tolerance''
      | KrylovSolve m pc opts A b i ps conv \<Rightarrow> map_of ps ''relative_tolerance''
      | _ \<Rightarrow> None)"

subsection \<open>Laws a library may satisfy\<close>


text \<open>
  An integrand scaled by the constant zero (and negated) integrates to zero; and the
  value of the term that rotational form adds to the right-hand side of the pressure
  system, at the test function \<open>t\<close>.
\<close>

definition zero_scaling :: "'a backend \<Rightarrow> bool" where
  "zero_scaling B \<longleftrightarrow> (\<forall>x. int_dx B (b_neg B (b_product B (b_constant B 0) x)) = 0)"

definition rotational_term :: "'a backend \<Rightarrow> (nat \<Rightarrow> 'a) \<Rightarrow> real \<Rightarrow> ufl \<Rightarrow> 'a \<Rightarrow> real" where
  "rotational_term B h mu d t =
     int_dx B (b_neg B (b_product B (b_constant B mu)
       (b_dot B (b_grad B (eval B h t None d)) (b_grad B t))))"

subsection \<open>Fields read and fields written\<close>

text \<open>The identities of the coefficient vectors an expression or a form reads.\<close>

primrec coeffs :: "ufl \<Rightarrow> nat set" where
  "coeffs (Coefficient f) = {fid f}"
| "coeffs (Constant r) = {}"
| "coeffs (Arg a) = {}"
| "coeffs (FacetNormal V) = {}"
| "coeffs (Identity V) = {}"
| "coeffs (Grad e) = coeffs e"
| "coeffs (Div e) = coeffs e"
| "coeffs (Transposed e) = coeffs e"
| "coeffs (Inner a b) = coeffs a \<union> coeffs b"
| "coeffs (Dot a b) = coeffs a \<union> coeffs b"
| "coeffs (Sum a b) = coeffs a \<union> coeffs b"
| "coeffs (Sub a b) = coeffs a \<union> coeffs b"
| "coeffs (Product a b) = coeffs a \<union> coeffs b"
| "coeffs (Division a b) = coeffs a \<union> coeffs b"
| "coeffs (Neg e) = coeffs e"

primrec integral_coeffs :: "integral \<Rightarrow> nat set" where
  "integral_coeffs (Dx e) = coeffs e"
| "integral_coeffs (Ds e) = coeffs e"

definition form_coeffs :: "form \<Rightarrow> nat set" where
  "form_coeffs F = (\<Union>i \<in> set F. integral_coeffs i)"

text \<open>The fields a step is given: the pressure, \<open>u[0]\<close>, and what the forces read.\<close>

definition step_inputs :: "(int \<rightharpoonup> func) \<Rightarrow> func \<Rightarrow> (int \<rightharpoonup> ufl) \<Rightarrow> nat set" where
  "step_inputs u p0 f =
     {fid p0}
     \<union> (case u 0 of None \<Rightarrow> {} | Some x \<Rightarrow> {fid x})
     \<union> (case f 0 of None \<Rightarrow> {} | Some e \<Rightarrow> coeffs e)
     \<union> (case f 1 of None \<Rightarrow> {} | Some e \<Rightarrow> coeffs e)"

text \<open>
  Two worlds agree on a set of fields when they hold the same coefficients there, the
  same allocation counter and the same process-wide options; the trace and the
  messages may differ.
\<close>

definition agree :: "nat set \<Rightarrow> 'a world \<Rightarrow> 'a world \<Rightarrow> bool" where
  "agree S w w' \<longleftrightarrow>
     next_id w' = next_id w \<and> petsc_options w' = petsc_options w
   \<and> (\<forall>i \<in> S. heap w' i = heap w i)"

text \<open>
  A call leaves the fields alone when every field allocated before it keeps its
  coefficients, and the two fields it returns, if it returns, are distinct and were
  allocated during it.
\<close>

definition leaves_fields :: "'a world \<Rightarrow> (error + (func \<times> func)) \<times> 'a world \<Rightarrow> bool" where
  "leaves_fields w r \<longleftrightarrow>
     next_id w \<le> next_id (snd r)
   \<and> (\<forall>i < next_id w. heap (snd r) i = heap w i)
   \<and> (case fst r of
        Inl e \<Rightarrow> True
      | Inr (u1, p1) \<Rightarrow>
          next_id w \<le> fid p1 \<and> next_id w \<le> fid u1 \<and> fid p1 \<noteq> fid u1
        \<and> fid p1 < next_id (snd r) \<and> fid u1 < next_id (snd r))"

text \<open>A second world: it agrees with \<open>world0\<close> on \<open>u[0]\<close> and on the pressure only.\<close>

definition world0_other :: "real world" where
  "world0_other =
     \<lparr>heap = (\<lambda>i. if i = 0 then 3 else if i = 1 then 11 else if i = 2 then 5 else 13),
      next_id = 3, petsc_options = [],
      calls = [LinearSolve [] [] (Func 1 0) [] [] True],
      messages = [Enter ''earlier'']\<rparr>"

text \<open>The second and the third stage of a step, named for the proofs.\<close>

definition correction_stage ::
  "'a backend \<Rightarrow> func \<Rightarrow> (int \<rightharpoonup> func) \<Rightarrow> bc list \<Rightarrow> func \<Rightarrow> func \<Rightarrow> argument
     \<Rightarrow> real \<Rightarrow> real \<Rightarrow> real \<Rightarrow> bool \<Rightarrow> real \<Rightarrow> bool
     \<Rightarrow> 'a world \<Rightarrow> (error + (func \<times> func)) \<times> 'a world" where
  "correction_stage B ui u u_bcs p1 p0 v mu rho dt rot tol verbose w =
     (let r3 = Message ''Computing velocity correction''
                 (compute_velocity_correction B ui u u_bcs p1 p0 v mu rho dt rot tol verbose) w
      in case fst r3 of
           Inl e \<Rightarrow> (Inl e, snd r3)
         | Inr u1 \<Rightarrow> (Inr (u1, p1), snd r3))"

definition pressure_stage ::
  "'a backend \<Rightarrow> func \<Rightarrow> real \<Rightarrow> (int \<rightharpoonup> func) \<Rightarrow> bc list \<Rightarrow> bc list option \<Rightarrow> func \<Rightarrow> argument
     \<Rightarrow> real \<Rightarrow> real \<Rightarrow> real \<Rightarrow> bool \<Rightarrow> real \<Rightarrow> bool
     \<Rightarrow> 'a world \<Rightarrow> (error + (func \<times> func)) \<times> 'a world" where
  "pressure_stage B ui alpha u u_bcs p_bcs p0 v mu rho dt rot tol verbose w =
     (let r2 = Message ''Computing pressure''
                 (compute_pressure B (Some p0) alpha rho dt mu (Div (Coefficient ui)) p_bcs None
                    rot tol verbose) w
      in case fst r2 of
           Inl e \<Rightarrow> (Inl e, snd r2)
         | Inr p1 \<Rightarrow>
             correction_stage B ui u u_bcs p1 p0 v mu rho dt rot tol verbose (snd r2))"

section \<open>What each sub-solve does\<close>

text \<open>
  Each solver call of the module, with the parameters the module gives it, either
  reports convergence and returns, or reports none and raises; either way it stores its
  last iterate and is recorded once.
\<close>

lemma solve_nonlinear_newton:
  "\<exists>conv x. solve_nonlinear B F u bcs J (newton_parameters tol) w =
     (if conv then Inr () else Inl RuntimeError,
      w\<lparr>heap := (heap w)(fid u := x),
        calls := calls w @ [NonlinearSolve F u bcs J (heap w (fid u)) (newton_parameters tol) conv]\<rparr>)"
  by (cases "fst (newton_solver B (\<lambda>x q. fval B ((heap w)(fid u := x)) q None F) J bcs
        (heap w (fid u)) (petsc_options w) (newton_parameters tol))")
     (auto simp add: solve_nonlinear_def Let_def error_on_nonconvergence_def sub_parameters_def
        newton_parameters_def)

lemma solve_linear_iterative:
  "\<exists>conv x. solve_linear B a L u bcs (linear_parameters tol verbose) w =
     (if conv then Inr () else Inl RuntimeError,
      w\<lparr>heap := (heap w)(fid u := x),
        calls := calls w @ [LinearSolve a L u bcs (linear_parameters tol verbose) conv]\<rparr>)"
  by (cases "fst (linear_solver B (assemble_matrix B (heap w) a) (assemble_vector B (heap w) L)
        bcs (heap w (fid u)) (petsc_options w) (linear_parameters tol verbose))")
     (auto simp add: solve_linear_def Let_def error_on_nonconvergence_def sub_parameters_def
        linear_parameters_def)

lemma krylov_solve_neumann:
  "\<exists>conv x. krylov_solve B m pc (neumann_parameters tol verbose) A i b w =
     (if conv then Inr () else Inl RuntimeError,
      w\<lparr>heap := (heap w)(i := x),
        calls := calls w @ [KrylovSolve m pc (petsc_options w) A b i
                             (neumann_parameters tol verbose) conv]\<rparr>)"
  by (cases "fst (krylov_solver B m pc A b (heap w i) (petsc_options w)
        (neumann_parameters tol verbose))")
     (auto simp add: krylov_solve_def Let_def error_on_nonconvergence_def
        neumann_parameters_def)

lemma compute_tentative_velocity_spec:
  assumes "u 0 = Some u0"
    and "tentative_residual (Func (next_id w) (function_space u0)) u p0 f m rho mu dt v
           = Inr (alpha, F1)"
  shows "\<exists>conv x. compute_tentative_velocity B u p0 f bcs m rho mu dt v tol w =
     after_newton w (Func (next_id w) (function_space u0)) alpha F1 bcs
       (((heap w)(next_id w := b_zero B (function_space u0))) (fid u0))
       (newton_parameters tol) conv x"
proof -
  let ?ui = "Func (next_id w) (function_space u0)"
  let ?w2 = "assign ?ui u0 (snd (new_Function B (function_space u0) w))"
  obtain conv x where s: "solve_nonlinear B F1 ?ui bcs (derivative F1 ?ui) (newton_parameters tol) ?w2 =
     (if conv then Inr () else Inl RuntimeError,
      ?w2\<lparr>heap := (heap ?w2)(fid ?ui := x),
        calls := calls ?w2 @ [NonlinearSolve F1 ?ui bcs (derivative F1 ?ui) (heap ?w2 (fid ?ui)) (newton_parameters tol) conv]\<rparr>)"
    using solve_nonlinear_newton [of B F1 ?ui bcs "derivative F1 ?ui" tol ?w2] by blast
  have "compute_tentative_velocity B u p0 f bcs m rho mu dt v tol w =
     after_newton w ?ui alpha F1 bcs
       (((heap w)(next_id w := b_zero B (function_space u0))) (fid u0))
       (newton_parameters tol) conv x"
    using assms s
    by (simp add: compute_tentative_velocity_def getitem_def Let_def new_Function_def
        assign_def derivative_def after_newton_def)
  then show ?thesis by blast
qed

lemma forward_euler_residual:
  assumes "u 0 = Some u0" and "f 0 = Some f0"
  shows "tentative_residual ui u p0 f ''forward euler'' rho mu dt v =
      Inr (1, form_sub (mul_dx (Inner (Sub (Coefficient ui) (Coefficient u0)) (Arg v)))
                (form_rmul (Division (Constant dt) (Constant rho)) (rhs_weak u0 v f0 rho mu p0)))"
  using assms by (simp add: tentative_residual_def getitem_def)

lemma backward_euler_residual:
  assumes "u 0 = Some u0" and "f 1 = Some f1"
  shows "tentative_residual ui u p0 f ''backward euler'' rho mu dt v =
      Inr (1, form_sub (mul_dx (Inner (Sub (Coefficient ui) (Coefficient u0)) (Arg v)))
                (form_rmul (Division (Constant dt) (Constant rho)) (rhs_weak ui v f1 rho mu p0)))"
  using assms by (simp add: tentative_residual_def getitem_def)

lemma crank_nicolson_residual:
  assumes "u 0 = Some u0" and "f 0 = Some f0" and "f 1 = Some f1"
  shows "tentative_residual ui u p0 f ''crank-nicolson'' rho mu dt v =
      Inr (1, form_sub (mul_dx (Inner (Sub (Coefficient ui) (Coefficient u0)) (Arg v)))
                (form_rmul (Product (Division (Constant dt) (Constant rho)) (Constant (1/2)))
                   (form_add (rhs_weak u0 v f0 rho mu p0) (rhs_weak ui v f1 rho mu p0))))"
  using assms by (simp add: tentative_residual_def getitem_def)

lemma compute_pressure_dirichlet:
  assumes "p_bcs = Some (b0 # bs)"
  shows "\<exists>conv x. compute_pressure B (Some p0) alpha rho dt mu d p_bcs pfs rot tol verbose w =
     after_linear w (Func (next_id w) (function_space p0))
       (pressure_a2 (function_space p0))
       (pressure_L2 (function_space p0) p0 alpha rho dt mu d rot)
       (b0 # bs) (linear_parameters tol verbose) conv x"
proof -
  let ?P = "function_space p0"
  let ?p1 = "Func (next_id w) ?P"
  let ?w1 = "snd (new_Function B ?P w)"
  obtain conv x where s: "solve_linear B (pressure_a2 ?P) (pressure_L2 ?P p0 alpha rho dt mu d rot)
        ?p1 (b0 # bs) (linear_parameters tol verbose) ?w1 =
     (if conv then Inr () else Inl RuntimeError,
      ?w1\<lparr>heap := (heap ?w1)(fid ?p1 := x),
        calls := calls ?w1 @ [LinearSolve (pressure_a2 ?P) (pressure_L2 ?P p0 alpha rho dt mu d rot)
           ?p1 (b0 # bs) (linear_parameters tol verbose) conv]\<rparr>)"
    using solve_linear_iterative [of B "pressure_a2 ?P" "pressure_L2 ?P p0 alpha rho dt mu d rot"
        ?p1 "b0 # bs" tol verbose ?w1] by blast
  have "compute_pressure B (Some p0) alpha rho dt mu d p_bcs pfs rot tol verbose w =
     after_linear w ?p1 (pressure_a2 ?P) (pressure_L2 ?P p0 alpha rho dt mu d rot)
       (b0 # bs) (linear_parameters tol verbose) conv x"
    using assms s
    by (simp add: compute_pressure_def truthy_def Let_def new_Function_def after_linear_def)
  then show ?thesis by blast
qed

lemma compute_pressure_neumann:
  assumes "\<not> truthy p_bcs"
  shows "\<exists>conv x. compute_pressure B (Some p0) alpha rho dt mu d p_bcs pfs rot tol verbose w =
     after_krylov w (Func (next_id w) (function_space p0)) ''cg'' ''hypre_amg''
       (AList.update ''pc_hypre_boomeramg_relax_type_coarse'' ''jacobi'' (petsc_options w))
       (assemble_matrix B ((heap w)(next_id w := b_zero B (function_space p0)))
          (pressure_a2 (function_space p0)))
       (assemble_vector B ((heap w)(next_id w := b_zero B (function_space p0)))
          (pressure_L2 (function_space p0) p0 alpha rho dt mu d rot))
       (neumann_parameters tol verbose) conv x"
proof -
  let ?P = "function_space p0"
  let ?p1 = "Func (next_id w) ?P"
  let ?w1 = "snd (new_Function B ?P w)"
  let ?w2 = "PETScOptions_set ''pc_hypre_boomeramg_relax_type_coarse'' ''jacobi'' ?w1"
  let ?A = "assemble_matrix B (heap ?w1) (pressure_a2 ?P)"
  let ?b = "assemble_vector B (heap ?w1) (pressure_L2 ?P p0 alpha rho dt mu d rot)"
  obtain conv x where s: "krylov_solve B ''cg'' ''hypre_amg'' (neumann_parameters tol verbose)
        ?A (fid ?p1) ?b ?w2 =
     (if conv then Inr () else Inl RuntimeError,
      ?w2\<lparr>heap := (heap ?w2)(fid ?p1 := x),
        calls := calls ?w2 @ [KrylovSolve ''cg'' ''hypre_amg'' (petsc_options ?w2) ?A ?b (fid ?p1)
                             (neumann_parameters tol verbose) conv]\<rparr>)"
    using krylov_solve_neumann [of B "''cg''" "''hypre_amg''" tol verbose ?A "fid ?p1" ?b ?w2]
    by blast
  have "compute_pressure B (Some p0) alpha rho dt mu d p_bcs pfs rot tol verbose w =
     after_krylov w ?p1 ''cg'' ''hypre_amg''
       (AList.update ''pc_hypre_boomeramg_relax_type_coarse'' ''jacobi'' (petsc_options w))
       (assemble_matrix B ((heap w)(next_id w := b_zero B ?P)) (pressure_a2 ?P))
       (assemble_vector B ((heap w)(next_id w := b_zero B ?P))
          (pressure_L2 ?P p0 alpha rho dt mu d rot))
       (neumann_parameters tol verbose) conv x"
    using assms s
    by (simp add: compute_pressure_def Let_def new_Function_def PETScOptions_set_def
        after_krylov_def)
  then show ?thesis by blast
qed

lemma compute_velocity_correction_spec:
  assumes "u 0 = Some u0"
  shows "\<exists>conv x. compute_velocity_correction B ui u bcs p1 p0 v mu rho dt rot tol verbose w =
     after_linear w (Func (next_id w) (function_space u0))
       (mul_dx (Inner (Arg (TrialFunction (function_space u0))) (Arg v)))
       (form_sub (mul_dx (Inner (Coefficient ui) (Arg v)))
          (mul_dx (Product (Division (Constant dt) (Constant rho))
                     (Inner (Grad (correction_phi ui p1 p0 mu rot)) (Arg v)))))
       bcs (linear_parameters tol verbose) conv x"
proof -
  let ?V = "function_space u0"
  let ?u1 = "Func (next_id w) ?V"
  let ?w1 = "snd (new_Function B ?V w)"
  let ?a3 = "mul_dx (Inner (Arg (TrialFunction ?V)) (Arg v))"
  let ?L3 = "form_sub (mul_dx (Inner (Coefficient ui) (Arg v)))
                (mul_dx (Product (Division (Constant dt) (Constant rho))
                           (Inner (Grad (correction_phi ui p1 p0 mu rot)) (Arg v))))"
  obtain conv x where s: "solve_linear B ?a3 ?L3 ?u1 bcs (linear_parameters tol verbose) ?w1 =
     (if conv then Inr () else Inl RuntimeError,
      ?w1\<lparr>heap := (heap ?w1)(fid ?u1 := x),
        calls := calls ?w1 @ [LinearSolve ?a3 ?L3 ?u1 bcs (linear_parameters tol verbose) conv]\<rparr>)"
    using solve_linear_iterative [of B ?a3 ?L3 ?u1 bcs tol verbose ?w1] by blast
  have "compute_velocity_correction B ui u bcs p1 p0 v mu rho dt rot tol verbose w =
     after_linear w ?u1 ?a3 ?L3 bcs (linear_parameters tol verbose) conv x"
    using assms s
    by (simp add: compute_velocity_correction_def getitem_def Let_def new_Function_def
        after_linear_def)
  then show ?thesis by blast
qed

lemma compute_pressure_summary:
  "\<exists>c conv x opts. compute_pressure B (Some p_old) alpha rho dt mu d p_bcs pfs rot tol verbose w =
      (if conv then Inr (Func (next_id w) (function_space p_old)) else Inl RuntimeError,
       w\<lparr>heap := (heap w)(next_id w := x), next_id := Suc (next_id w),
         petsc_options := opts, calls := calls w @ [c]\<rparr>)
     \<and> krylov_tolerance c = Some (PReal tol)"
proof (cases "truthy p_bcs")
  case True
  then obtain b0 bs where "p_bcs = Some (b0 # bs)"
    by (auto simp add: truthy_def split: option.splits list.splits)
  from compute_pressure_dirichlet [OF this, of B p_old alpha rho dt mu d pfs rot tol verbose w]
  obtain conv x where "compute_pressure B (Some p_old) alpha rho dt mu d p_bcs pfs rot tol verbose w =
     after_linear w (Func (next_id w) (function_space p_old))
       (pressure_a2 (function_space p_old))
       (pressure_L2 (function_space p_old) p_old alpha rho dt mu d rot)
       (b0 # bs) (linear_parameters tol verbose) conv x" by (elim exE)
  then have "compute_pressure B (Some p_old) alpha rho dt mu d p_bcs pfs rot tol verbose w =
      (if conv then Inr (Func (next_id w) (function_space p_old)) else Inl RuntimeError,
       w\<lparr>heap := (heap w)(next_id w := x), next_id := Suc (next_id w),
         petsc_options := petsc_options w,
         calls := calls w @ [LinearSolve (pressure_a2 (function_space p_old))
       (pressure_L2 (function_space p_old) p_old alpha rho dt mu d rot) (Func (next_id w) (function_space p_old))
       (b0 # bs) (linear_parameters tol verbose) conv]\<rparr>)
     \<and> krylov_tolerance (LinearSolve (pressure_a2 (function_space p_old))
       (pressure_L2 (function_space p_old) p_old alpha rho dt mu d rot) (Func (next_id w) (function_space p_old))
       (b0 # bs) (linear_parameters tol verbose) conv) = Some (PReal tol)"
    by (simp add: after_linear_def krylov_tolerance_def linear_parameters_def sub_parameters_def)
  then show ?thesis by blast
next
  case False
  from compute_pressure_neumann [OF this, of B p_old alpha rho dt mu d pfs rot tol verbose w]
  obtain conv x where "compute_pressure B (Some p_old) alpha rho dt mu d p_bcs pfs rot tol verbose w =
     after_krylov w (Func (next_id w) (function_space p_old)) ''cg'' ''hypre_amg''
       (AList.update ''pc_hypre_boomeramg_relax_type_coarse'' ''jacobi'' (petsc_options w))
       (assemble_matrix B ((heap w)(next_id w := b_zero B (function_space p_old)))
          (pressure_a2 (function_space p_old)))
       (assemble_vector B ((heap w)(next_id w := b_zero B (function_space p_old)))
          (pressure_L2 (function_space p_old) p_old alpha rho dt mu d rot))
       (neumann_parameters tol verbose) conv x" by (elim exE)
  then have "compute_pressure B (Some p_old) alpha rho dt mu d p_bcs pfs rot tol verbose w =
      (if conv then Inr (Func (next_id w) (function_space p_old)) else Inl RuntimeError,
       w\<lparr>heap := (heap w)(next_id w := x), next_id := Suc (next_id w),
         petsc_options := AList.update ''pc_hypre_boomeramg_relax_type_coarse'' ''jacobi'' (petsc_options w),
         calls := calls w @ [KrylovSolve ''cg'' ''hypre_amg''
       (AList.update ''pc_hypre_boomeramg_relax_type_coarse'' ''jacobi'' (petsc_options w))
       (assemble_matrix B ((heap w)(next_id w := b_zero B (function_space p_old)))
          (pressure_a2 (function_space p_old)))
       (assemble_vector B ((heap w)(next_id w := b_zero B (function_space p_old)))
          (pressure_L2 (function_space p_old) p_old alpha rho dt mu d rot)) (next_id w)
       (neumann_parameters tol verbose) conv]\<rparr>)
     \<and> krylov_tolerance (KrylovSolve ''cg'' ''hypre_amg''
       (AList.update ''pc_hypre_boomeramg_relax_type_coarse'' ''jacobi'' (petsc_options w))
       (assemble_matrix B ((heap w)(next_id w := b_zero B (function_space p_old)))
          (pressure_a2 (function_space p_old)))
       (assemble_vector B ((heap w)(next_id w := b_zero B (function_space p_old)))
          (pressure_L2 (function_space p_old) p_old alpha rho dt mu d rot)) (next_id w)
       (neumann_parameters tol verbose) conv) = Some (PReal tol)"
    by (simp add: after_krylov_def krylov_tolerance_def neumann_parameters_def)
  then show ?thesis by blast
qed

lemma compute_velocity_correction_summary:
  assumes "u 0 = Some u_old"
  shows "\<exists>c conv x. compute_velocity_correction B ui u bcs p1 p0 v mu rho dt rot tol verbose w =
      (if conv then Inr (Func (next_id w) (function_space u_old)) else Inl RuntimeError,
       w\<lparr>heap := (heap w)(next_id w := x), next_id := Suc (next_id w), calls := calls w @ [c]\<rparr>)
     \<and> krylov_tolerance c = Some (PReal tol)"
proof -
  from compute_velocity_correction_spec [where u = u, OF assms, of B ui bcs p1 p0 v mu rho dt rot tol verbose w]
  obtain conv x where "compute_velocity_correction B ui u bcs p1 p0 v mu rho dt rot tol verbose w =
     after_linear w (Func (next_id w) (function_space u_old))
       (mul_dx (Inner (Arg (TrialFunction (function_space u_old))) (Arg v)))
       (form_sub (mul_dx (Inner (Coefficient ui) (Arg v)))
          (mul_dx (Product (Division (Constant dt) (Constant rho))
                     (Inner (Grad (correction_phi ui p1 p0 mu rot)) (Arg v)))))
       bcs (linear_parameters tol verbose) conv x" by (elim exE)
  then have "compute_velocity_correction B ui u bcs p1 p0 v mu rho dt rot tol verbose w =
      (if conv then Inr (Func (next_id w) (function_space u_old)) else Inl RuntimeError,
       w\<lparr>heap := (heap w)(next_id w := x), next_id := Suc (next_id w), calls := calls w @ [LinearSolve (mul_dx (Inner (Arg (TrialFunction (function_space u_old))) (Arg v)))
       (form_sub (mul_dx (Inner (Coefficient ui) (Arg v)))
          (mul_dx (Product (Division (Constant dt) (Constant rho))
                     (Inner (Grad (correction_phi ui p1 p0 mu rot)) (Arg v))))) (Func (next_id w) (function_space u_old))
       bcs (linear_parameters tol verbose) conv]\<rparr>)
     \<and> krylov_tolerance (LinearSolve (mul_dx (Inner (Arg (TrialFunction (function_space u_old))) (Arg v)))
       (form_sub (mul_dx (Inner (Coefficient ui) (Arg v)))
          (mul_dx (Product (Division (Constant dt) (Constant rho))
                     (Inner (Grad (correction_phi ui p1 p0 mu rot)) (Arg v))))) (Func (next_id w) (function_space u_old))
       bcs (linear_parameters tol verbose) conv) = Some (PReal tol)"
    by (simp add: after_linear_def krylov_tolerance_def linear_parameters_def sub_parameters_def)
  then show ?thesis by blast
qed

text \<open>
  A step on valid input: between one and three solver calls, in this order, each made
  only if the one before reported convergence.
\<close>

lemma step_run:
  assumes "0 < dt" and "0 < mu" and "u 0 = Some u_old"
    and "tentative_residual (Func (next_id w) (function_space u_old)) u p_old f m rho mu dt
           (TestFunction (function_space u_old)) = Inr (alpha, F)"
  shows
    "\<exists>g c1 x1 pc c2 x2 opts cc c3 x3.
       step B dt u p_old u_bcs p_bcs rho mu m f rot verbose tol w =
        (if c1 \<and> c2 \<and> c3
         then Inr (Func (Suc (Suc (next_id w))) (function_space u_old),
                   Func (Suc (next_id w)) (function_space p_old))
         else Inl RuntimeError,
         w\<lparr>heap := (if c1 then if c2 then (heap w)(next_id w := x1, Suc (next_id w) := x2,
                                              Suc (Suc (next_id w)) := x3)
                                 else (heap w)(next_id w := x1, Suc (next_id w) := x2)
                      else (heap w)(next_id w := x1)),
           next_id := (if c1 then if c2 then Suc (Suc (Suc (next_id w)))
                                  else Suc (Suc (next_id w))
                       else Suc (next_id w)),
           petsc_options := (if c1 then opts else petsc_options w),
           calls := calls w @
              NonlinearSolve F (Func (next_id w) (function_space u_old)) u_bcs
                (Derivative F (Func (next_id w) (function_space u_old))) g
                (newton_parameters (1 / 10 ^ 10)) c1
              # (if c1 then pc # (if c2 then [cc] else []) else []),
           messages := messages w @
              [Enter ''Computing tentative velocity'', Exit ''Computing tentative velocity'']
              @ (if c1 then [Enter ''Computing pressure'', Exit ''Computing pressure'']
                   @ (if c2 then [Enter ''Computing velocity correction'',
                                  Exit ''Computing velocity correction''] else [])
                 else [])\<rparr>)
     \<and> krylov_tolerance pc = Some (PReal tol)
     \<and> krylov_tolerance cc = Some (PReal tol)"
proof -
  let ?V = "function_space u_old"
  let ?v = "TestFunction ?V"
  let ?ui = "Func (next_id w) ?V"
  let ?p1 = "Func (Suc (next_id w)) (function_space p_old)"
  define w0 where "w0 = w\<lparr>messages := messages w @ [Enter ''Computing tentative velocity'']\<rparr>"
  define g where "g = ((heap w)(next_id w := b_zero B ?V)) (fid u_old)"
  have n0: "next_id w0 = next_id w" "heap w0 = heap w" by (simp_all add: w0_def)
  have res: "tentative_residual (Func (next_id w0) ?V) u p_old f m rho mu dt ?v = Inr (alpha, F)"
    using assms(4) unfolding n0 .
  obtain c1 x1 where t:
    "compute_tentative_velocity B u p_old f u_bcs m rho mu dt ?v (1 / 10 ^ 10) w0 =
       after_newton w0 ?ui alpha F u_bcs g (newton_parameters (1 / 10 ^ 10)) c1 x1"
    using compute_tentative_velocity_spec [where u = u, OF assms(3) res, of B u_bcs "1 / 10 ^ 10"]
    unfolding n0 g_def by (elim exE)
  define w1 where "w1 = w\<lparr>heap := (heap w)(next_id w := x1), next_id := Suc (next_id w),
       calls := calls w @ [NonlinearSolve F ?ui u_bcs (Derivative F ?ui) g
                             (newton_parameters (1 / 10 ^ 10)) c1],
       messages := messages w @ [Enter ''Computing tentative velocity'',
            Exit ''Computing tentative velocity'', Enter ''Computing pressure'']\<rparr>"
  have n1: "next_id w1 = Suc (next_id w)" by (simp add: w1_def)
  obtain pc c2 x2 opts where p:
    "compute_pressure B (Some p_old) alpha rho dt mu (Div (Coefficient ?ui))
        p_bcs None rot tol verbose w1 =
      (if c2 then Inr ?p1 else Inl RuntimeError,
       w1\<lparr>heap := (heap w1)(next_id w1 := x2), next_id := Suc (next_id w1),
         petsc_options := opts, calls := calls w1 @ [pc]\<rparr>)"
    and pt: "krylov_tolerance pc = Some (PReal tol)"
    using compute_pressure_summary [of B p_old alpha rho dt mu
        "Div (Coefficient ?ui)" p_bcs None rot tol verbose w1]
    unfolding n1 by (elim exE conjE)
  define w2 where "w2 = w1\<lparr>heap := (heap w1)(next_id w1 := x2), next_id := Suc (next_id w1),
         petsc_options := opts, calls := calls w1 @ [pc],
         messages := messages w1 @ [Exit ''Computing pressure'',
            Enter ''Computing velocity correction'']\<rparr>"
  have n2: "next_id w2 = Suc (Suc (next_id w))" by (simp add: w2_def w1_def)
  obtain cc c3 x3 where c:
    "compute_velocity_correction B ?ui u u_bcs ?p1 p_old ?v mu rho dt rot tol verbose w2 =
      (if c3 then Inr (Func (Suc (Suc (next_id w))) ?V) else Inl RuntimeError,
       w2\<lparr>heap := (heap w2)(next_id w2 := x3), next_id := Suc (next_id w2),
         calls := calls w2 @ [cc]\<rparr>)"
    and ct: "krylov_tolerance cc = Some (PReal tol)"
    using compute_velocity_correction_summary [where u = u, OF assms(3),
        of B ?ui u_bcs ?p1 p_old ?v mu rho dt rot tol verbose w2]
    unfolding n2 by (elim exE conjE)
  have r: "step B dt u p_old u_bcs p_bcs rho mu m f rot verbose tol w =
        (if c1 \<and> c2 \<and> c3
         then Inr (Func (Suc (Suc (next_id w))) ?V, ?p1)
         else Inl RuntimeError,
         w\<lparr>heap := (if c1 then if c2 then (heap w)(next_id w := x1, Suc (next_id w) := x2,
                                              Suc (Suc (next_id w)) := x3)
                                 else (heap w)(next_id w := x1, Suc (next_id w) := x2)
                      else (heap w)(next_id w := x1)),
           next_id := (if c1 then if c2 then Suc (Suc (Suc (next_id w)))
                                  else Suc (Suc (next_id w))
                       else Suc (next_id w)),
           petsc_options := (if c1 then opts else petsc_options w),
           calls := calls w @
              NonlinearSolve F ?ui u_bcs (Derivative F ?ui) g
                (newton_parameters (1 / 10 ^ 10)) c1
              # (if c1 then pc # (if c2 then [cc] else []) else []),
           messages := messages w @
              [Enter ''Computing tentative velocity'', Exit ''Computing tentative velocity'']
              @ (if c1 then [Enter ''Computing pressure'', Exit ''Computing pressure'']
                   @ (if c2 then [Enter ''Computing velocity correction'',
                                  Exit ''Computing velocity correction''] else [])
                 else [])\<rparr>)"
    using assms(1-3) t p c
    unfolding w2_def w1_def w0_def after_newton_def
    by (cases c1; cases c2; cases c3) (simp_all add: step_def Message_def Let_def getitem_def)
  show ?thesis
    using r pt ct by blast
qed


lemma compute_tentative_velocity_residual_error:
  assumes "u 0 = Some u_old"
    and "tentative_residual (Func (next_id w) (function_space u_old)) u p_old f m rho mu dt v
           = Inl e"
  shows "compute_tentative_velocity B u p_old f bcs m rho mu dt v tol w =
     (Inl e, w\<lparr>heap := (heap w)(next_id w := b_zero B (function_space u_old)),
               next_id := Suc (next_id w)\<rparr>)"
  using assms
  by (simp add: compute_tentative_velocity_def getitem_def new_Function_def Let_def)

lemma step_residual_error:
  assumes "0 < dt" and "0 < mu" and "u 0 = Some u_old"
    and "tentative_residual (Func (next_id w) (function_space u_old)) u p_old f m rho mu dt
           (TestFunction (function_space u_old)) = Inl e"
  shows "step B dt u p_old u_bcs p_bcs rho mu m f rot verbose tol w =
     (Inl e,
      w\<lparr>heap := (heap w)(next_id w := b_zero B (function_space u_old)),
        next_id := Suc (next_id w),
        messages := messages w @
          [Enter ''Computing tentative velocity'', Exit ''Computing tentative velocity'']\<rparr>)"
proof -
  let ?w0 = "w\<lparr>messages := messages w @ [Enter ''Computing tentative velocity'']\<rparr>"
  have "tentative_residual (Func (next_id ?w0) (function_space u_old)) u p_old f m rho mu dt
           (TestFunction (function_space u_old)) = Inl e"
    using assms(4) by simp
  from compute_tentative_velocity_residual_error [where u = u, OF assms(3) this,
      of B u_bcs "1 / 10 ^ 10"]
  show ?thesis
    using assms(1-3) by (simp add: step_def Message_def Let_def getitem_def)
qed

lemma step_no_history:
  assumes "0 < dt" and "0 < mu" and "u 0 = None"
  shows "step B dt u p_old u_bcs p_bcs rho mu m f rot verbose tol w = (Inl LookupError, w)"
  using assms by (simp add: step_def getitem_def)

text \<open>The right-hand side of the pressure system with and without rotational form.\<close>

lemma pressure_L2_rotational:
  "assemble_vector B h (pressure_L2 P p_old alpha rho dt mu d True) t =
     assemble_vector B h (pressure_L2 P p_old alpha rho dt mu d False) t
     + rotational_term B h mu d t"
  by (simp add: assemble_vector_def fval_def pressure_L2_def Let_def mul_dx_def form_add_def
      form_sub_def form_neg_def rotational_term_def)

lemma pressure_L2_mu_zero:
  assumes "zero_scaling B"
  shows "assemble_vector B h (pressure_L2 P p_old alpha rho dt 0 d True) =
     assemble_vector B h (pressure_L2 P p_old alpha rho dt 0 d False)"
proof
  fix t
  have "rotational_term B h 0 d t = 0"
    using assms by (simp add: rotational_term_def zero_scaling_def)
  then show "assemble_vector B h (pressure_L2 P p_old alpha rho dt 0 d True) t =
     assemble_vector B h (pressure_L2 P p_old alpha rho dt 0 d False) t"
    by (simp add: pressure_L2_rotational)
qed

lemma compute_pressure_mu_zero:
  assumes "zero_scaling B"
  shows "fst (compute_pressure B (Some p_old) alpha rho dt 0 d p_bcs pfs True tol verbose w) =
         fst (compute_pressure B (Some p_old) alpha rho dt 0 d p_bcs pfs False tol verbose w)
       \<and> heap (snd (compute_pressure B (Some p_old) alpha rho dt 0 d p_bcs pfs True tol verbose w)) =
         heap (snd (compute_pressure B (Some p_old) alpha rho dt 0 d p_bcs pfs False tol verbose w))"
  by (simp add: compute_pressure_def Let_def new_Function_def solve_linear_def krylov_solve_def
      PETScOptions_set_def pressure_L2_mu_zero [OF assms])

lemma compute_pressure_rotational_vanishes:
  assumes "\<forall>t. rotational_term B ((heap w)(next_id w := b_zero B (function_space p_old))) mu d t = 0"
  shows "fst (compute_pressure B (Some p_old) alpha rho dt mu d p_bcs pfs True tol verbose w) =
         fst (compute_pressure B (Some p_old) alpha rho dt mu d p_bcs pfs False tol verbose w)
       \<and> heap (snd (compute_pressure B (Some p_old) alpha rho dt mu d p_bcs pfs True tol verbose w)) =
         heap (snd (compute_pressure B (Some p_old) alpha rho dt mu d p_bcs pfs False tol verbose w))"
proof -
  let ?h = "(heap w)(next_id w := b_zero B (function_space p_old))"
  have "assemble_vector B ?h (pressure_L2 (function_space p_old) p_old alpha rho dt mu d True) =
        assemble_vector B ?h (pressure_L2 (function_space p_old) p_old alpha rho dt mu d False)"
    using assms by (intro ext) (simp add: pressure_L2_rotational)
  then show ?thesis
    by (simp add: compute_pressure_def Let_def new_Function_def solve_linear_def krylov_solve_def
        PETScOptions_set_def)
qed

lemma step_asserts:
  "dt \<le> 0 \<or> mu \<le> 0 \<Longrightarrow>
     step B dt u p0 u_bcs p_bcs rho mu m f rot verbose tol w = (Inl AssertionError, w)"
  by (auto simp add: step_def)

section \<open>What a step reads and writes\<close>

lemma eval_agree:
  "(\<forall>i \<in> coeffs e. h' i = h i) \<Longrightarrow> eval B h' q p e = eval B h q p e"
  by (induction e) simp_all

lemma ival_agree:
  assumes "\<forall>i \<in> integral_coeffs x. h' i = h i"
  shows "ival B h' q p x = ival B h q p x"
proof (cases x)
  case (Dx e)
  with assms eval_agree [of e h' h B q p] show ?thesis by simp
next
  case (Ds e)
  with assms eval_agree [of e h' h B q p] show ?thesis by simp
qed

lemma fval_agree:
  assumes "\<forall>i \<in> form_coeffs F. h' i = h i"
  shows "fval B h' q p F = fval B h q p F"
proof -
  have "map (ival B h' q p) F = map (ival B h q p) F"
    using assms by (intro map_cong refl ival_agree) (auto simp add: form_coeffs_def)
  then show ?thesis
    unfolding fval_def by (rule arg_cong [where f = sum_list])
qed

lemma form_coeffs_simps:
  "form_coeffs (mul_dx e) = coeffs e"
  "form_coeffs (mul_ds e) = coeffs e"
  "form_coeffs (form_add a b) = form_coeffs a \<union> form_coeffs b"
  "form_coeffs (form_neg a) = form_coeffs a"
  "form_coeffs (form_sub a b) = form_coeffs a \<union> form_coeffs b"
  "form_coeffs (form_rmul s a) = (if a = [] then {} else coeffs s \<union> form_coeffs a)"
proof -
  show "form_coeffs (mul_dx e) = coeffs e" "form_coeffs (mul_ds e) = coeffs e"
    by (simp_all add: form_coeffs_def mul_dx_def mul_ds_def)
  show add: "form_coeffs (form_add a b) = form_coeffs a \<union> form_coeffs b" for a b
    by (auto simp add: form_coeffs_def form_add_def)
  have n: "integral_coeffs (neg_integral x) = integral_coeffs x" for x by (cases x) simp_all
  show neg: "form_coeffs (form_neg a) = form_coeffs a" for a
    by (simp add: form_coeffs_def form_neg_def n)
  show "form_coeffs (form_sub a b) = form_coeffs a \<union> form_coeffs b"
    by (simp add: form_sub_def add neg)
  have s: "integral_coeffs (scale_integral s x) = coeffs s \<union> integral_coeffs x" for x
    by (cases x) simp_all
  show "form_coeffs (form_rmul s a) = (if a = [] then {} else coeffs s \<union> form_coeffs a)"
    by (cases a) (auto simp add: form_coeffs_def form_rmul_def s)
qed

lemma rhs_weak_coeffs:
  "form_coeffs (rhs_weak u v f rho mu p0) = coeffs f \<union> {fid u, fid p0}"
  by (auto simp add: rhs_weak_def Let_def form_coeffs_simps sigma_def epsilon_def)

lemma tentative_residual_coeffs:
  assumes "tentative_residual ui u p0 f m rho mu dt v = Inr (alpha, F)"
  shows "form_coeffs F \<subseteq> insert (fid ui) (step_inputs u p0 f)"
  using assms
  by (auto simp add: tentative_residual_def getitem_def step_inputs_def form_coeffs_simps
      rhs_weak_coeffs split: if_splits option.splits)


lemma agree_subset: "agree S w w' \<Longrightarrow> T \<subseteq> S \<Longrightarrow> agree T w w'"
  by (auto simp add: agree_def)

lemma agree_messages [simp]:
  "agree S (w\<lparr>messages := a\<rparr>) (w'\<lparr>messages := b\<rparr>) = agree S w w'"
  by (simp add: agree_def)

lemma agree_new_Function:
  assumes "agree S w w'"
  shows "fst (new_Function B V w') = fst (new_Function B V w)
       \<and> fst (new_Function B V w) = Func (next_id w) V
       \<and> agree (insert (next_id w) S) (snd (new_Function B V w)) (snd (new_Function B V w'))"
  using assms by (simp add: agree_def new_Function_def)

lemma solve_nonlinear_agree:
  assumes "agree S w w'" and "fid u \<in> S" and "form_coeffs F \<subseteq> S"
  shows "fst (solve_nonlinear B F u bcs J ps w') = fst (solve_nonlinear B F u bcs J ps w)
       \<and> agree S (snd (solve_nonlinear B F u bcs J ps w)) (snd (solve_nonlinear B F u bcs J ps w'))"
proof -
  have "fval B ((heap w')(fid u := x)) q None F = fval B ((heap w)(fid u := x)) q None F" for x q
    using assms by (intro fval_agree) (auto simp add: agree_def)
  then have R: "(\<lambda>x q. fval B ((heap w')(fid u := x)) q None F) =
      (\<lambda>x q. fval B ((heap w)(fid u := x)) q None F)" by (intro ext)
  have g: "heap w' (fid u) = heap w (fid u)" "petsc_options w' = petsc_options w"
    "next_id w' = next_id w" "\<forall>i \<in> S. heap w' i = heap w i"
    using assms by (auto simp add: agree_def)
  show ?thesis
    by (simp add: solve_nonlinear_def Let_def R g agree_def)
qed

lemma solve_linear_agree:
  assumes "agree S w w'" and "fid u \<in> S" and "form_coeffs a \<subseteq> S" and "form_coeffs L \<subseteq> S"
  shows "fst (solve_linear B a L u bcs ps w') = fst (solve_linear B a L u bcs ps w)
       \<and> agree S (snd (solve_linear B a L u bcs ps w)) (snd (solve_linear B a L u bcs ps w'))"
proof -
  have "fval B (heap w') q p a = fval B (heap w) q p a" for q p
    using assms by (intro fval_agree) (auto simp add: agree_def)
  then have A: "assemble_matrix B (heap w') a = assemble_matrix B (heap w) a"
    by (simp add: assemble_matrix_def)
  have "fval B (heap w') q p L = fval B (heap w) q p L" for q p
    using assms by (intro fval_agree) (auto simp add: agree_def)
  then have b: "assemble_vector B (heap w') L = assemble_vector B (heap w) L"
    by (simp add: assemble_vector_def)
  have g: "heap w' (fid u) = heap w (fid u)" "petsc_options w' = petsc_options w"
    "next_id w' = next_id w" "\<forall>i \<in> S. heap w' i = heap w i"
    using assms by (auto simp add: agree_def)
  show ?thesis
    by (simp add: solve_linear_def Let_def A b g agree_def)
qed

lemma krylov_solve_agree:
  assumes "agree S w w'" and "i \<in> S"
  shows "fst (krylov_solve B m pc ps A i b w') = fst (krylov_solve B m pc ps A i b w)
       \<and> agree S (snd (krylov_solve B m pc ps A i b w)) (snd (krylov_solve B m pc ps A i b w'))"
proof -
  have g: "heap w' i = heap w i" "petsc_options w' = petsc_options w"
    "next_id w' = next_id w" "\<forall>i \<in> S. heap w' i = heap w i"
    using assms by (auto simp add: agree_def)
  show ?thesis
    by (simp add: krylov_solve_def Let_def g agree_def)
qed

lemma compute_tentative_velocity_agree:
  assumes "agree S w w'" and "step_inputs u p0 f \<subseteq> S"
  shows "fst (compute_tentative_velocity B u p0 f bcs m rho mu dt v tol w') =
         fst (compute_tentative_velocity B u p0 f bcs m rho mu dt v tol w)
       \<and> agree S (snd (compute_tentative_velocity B u p0 f bcs m rho mu dt v tol w))
                 (snd (compute_tentative_velocity B u p0 f bcs m rho mu dt v tol w'))
       \<and> (\<forall>ui a. fst (compute_tentative_velocity B u p0 f bcs m rho mu dt v tol w) = Inr (ui, a)
            \<longrightarrow> fid ui = next_id w
              \<and> agree (insert (next_id w) S)
                  (snd (compute_tentative_velocity B u p0 f bcs m rho mu dt v tol w))
                  (snd (compute_tentative_velocity B u p0 f bcs m rho mu dt v tol w')))"
proof (cases "u 0")
  case None
  then show ?thesis using assms(1)
    by (simp add: compute_tentative_velocity_def getitem_def)
next
  case (Some u0)
  let ?V = "function_space u0"
  let ?ui = "Func (next_id w) ?V"
  let ?S = "insert (next_id w) S"
  have n: "next_id w' = next_id w" using assms(1) by (simp add: agree_def)
  have u0: "fid u0 \<in> S" using assms(2) Some by (auto simp add: step_inputs_def)
  have a1: "agree ?S (snd (new_Function B ?V w)) (snd (new_Function B ?V w'))"
    using agree_new_Function [OF assms(1)] by blast
  show ?thesis
  proof (cases "tentative_residual ?ui u p0 f m rho mu dt v")
    case (Inl e)
    then show ?thesis
      using Some n a1 agree_subset [OF a1, of S]
      by (auto simp add: compute_tentative_velocity_def getitem_def Let_def new_Function_def)
  next
    case (Inr aF)
    obtain alpha F where aF: "aF = (alpha, F)" by (cases aF)
    let ?w2 = "assign ?ui u0 (snd (new_Function B ?V w))"
    let ?w2' = "assign ?ui u0 (snd (new_Function B ?V w'))"
    have a2: "agree ?S ?w2 ?w2'"
      using a1 u0 by (auto simp add: agree_def assign_def new_Function_def)
    have F: "form_coeffs F \<subseteq> ?S"
      using tentative_residual_coeffs [OF Inr [unfolded aF]] assms(2) by auto
    have s: "fst (solve_nonlinear B F ?ui bcs (derivative F ?ui) (newton_parameters tol) ?w2') =
        fst (solve_nonlinear B F ?ui bcs (derivative F ?ui) (newton_parameters tol) ?w2)
      \<and> agree ?S (snd (solve_nonlinear B F ?ui bcs (derivative F ?ui) (newton_parameters tol) ?w2))
          (snd (solve_nonlinear B F ?ui bcs (derivative F ?ui) (newton_parameters tol) ?w2'))"
      by (rule solve_nonlinear_agree [OF a2 _ F]) simp
    have r: "compute_tentative_velocity B u p0 f bcs m rho mu dt v tol w =
        (case fst (solve_nonlinear B F ?ui bcs (derivative F ?ui) (newton_parameters tol) ?w2) of
           Inl e \<Rightarrow> Inl e | Inr _ \<Rightarrow> Inr (?ui, alpha),
         snd (solve_nonlinear B F ?ui bcs (derivative F ?ui) (newton_parameters tol) ?w2))"
      using Some Inr aF
      by (simp add: compute_tentative_velocity_def getitem_def Let_def new_Function_def
          split: sum.splits)
    have r': "compute_tentative_velocity B u p0 f bcs m rho mu dt v tol w' =
        (case fst (solve_nonlinear B F ?ui bcs (derivative F ?ui) (newton_parameters tol) ?w2') of
           Inl e \<Rightarrow> Inl e | Inr _ \<Rightarrow> Inr (?ui, alpha),
         snd (solve_nonlinear B F ?ui bcs (derivative F ?ui) (newton_parameters tol) ?w2'))"
      using Some Inr aF n
      by (simp add: compute_tentative_velocity_def getitem_def Let_def new_Function_def
          split: sum.splits)
    show ?thesis
      unfolding r r' using s agree_subset [of ?S _ _ S]
      by (auto split: sum.splits)
  qed
qed


lemma pressure_forms_coeffs:
  "form_coeffs (pressure_a2 P) = {}"
  "form_coeffs (pressure_L2 P p0 alpha rho dt mu d rot) = insert (fid p0) (coeffs d)"
  by (auto simp add: pressure_a2_def pressure_L2_def Let_def form_coeffs_simps)

lemma compute_pressure_agree:
  assumes "agree S w w'" and "fid p0 \<in> S" and "coeffs d \<subseteq> S"
  shows "fst (compute_pressure B (Some p0) alpha rho dt mu d p_bcs pfs rot tol verbose w') =
         fst (compute_pressure B (Some p0) alpha rho dt mu d p_bcs pfs rot tol verbose w)
       \<and> agree (insert (next_id w) S)
           (snd (compute_pressure B (Some p0) alpha rho dt mu d p_bcs pfs rot tol verbose w))
           (snd (compute_pressure B (Some p0) alpha rho dt mu d p_bcs pfs rot tol verbose w'))
       \<and> (\<forall>p1. fst (compute_pressure B (Some p0) alpha rho dt mu d p_bcs pfs rot tol verbose w)
                  = Inr p1 \<longrightarrow> fid p1 = next_id w)"
proof -
  let ?P = "function_space p0"
  let ?p1 = "Func (next_id w) ?P"
  let ?S = "insert (next_id w) S"
  let ?w1 = "snd (new_Function B ?P w)"
  let ?w1' = "snd (new_Function B ?P w')"
  let ?a2 = "pressure_a2 ?P"
  let ?L2 = "pressure_L2 ?P p0 alpha rho dt mu d rot"
  have n: "next_id w' = next_id w" using assms(1) by (simp add: agree_def)
  have a1: "agree ?S ?w1 ?w1'"
    using agree_new_Function [OF assms(1)] by blast
  have ca: "form_coeffs ?a2 \<subseteq> ?S" and cL: "form_coeffs ?L2 \<subseteq> ?S"
    using assms(2,3) by (auto simp add: pressure_forms_coeffs)
  show ?thesis
  proof (cases "truthy p_bcs")
    case True
    let ?bs = "case p_bcs of Some bs \<Rightarrow> bs | None \<Rightarrow> []"
    have s: "fst (solve_linear B ?a2 ?L2 ?p1 ?bs (linear_parameters tol verbose) ?w1') =
        fst (solve_linear B ?a2 ?L2 ?p1 ?bs (linear_parameters tol verbose) ?w1)
      \<and> agree ?S (snd (solve_linear B ?a2 ?L2 ?p1 ?bs (linear_parameters tol verbose) ?w1))
          (snd (solve_linear B ?a2 ?L2 ?p1 ?bs (linear_parameters tol verbose) ?w1'))"
      by (rule solve_linear_agree [OF a1 _ ca cL]) simp
    have r: "compute_pressure B (Some p0) alpha rho dt mu d p_bcs pfs rot tol verbose w =
        (case fst (solve_linear B ?a2 ?L2 ?p1 ?bs (linear_parameters tol verbose) ?w1) of
           Inl e \<Rightarrow> Inl e | Inr _ \<Rightarrow> Inr ?p1,
         snd (solve_linear B ?a2 ?L2 ?p1 ?bs (linear_parameters tol verbose) ?w1))"
      using True
      by (simp add: compute_pressure_def Let_def new_Function_def split: sum.splits)
    have r': "compute_pressure B (Some p0) alpha rho dt mu d p_bcs pfs rot tol verbose w' =
        (case fst (solve_linear B ?a2 ?L2 ?p1 ?bs (linear_parameters tol verbose) ?w1') of
           Inl e \<Rightarrow> Inl e | Inr _ \<Rightarrow> Inr ?p1,
         snd (solve_linear B ?a2 ?L2 ?p1 ?bs (linear_parameters tol verbose) ?w1'))"
      using True n
      by (simp add: compute_pressure_def Let_def new_Function_def split: sum.splits)
    show ?thesis
      unfolding r r' using s by (auto split: sum.splits)
  next
    case False
    let ?k = "''pc_hypre_boomeramg_relax_type_coarse''"
    let ?w2 = "PETScOptions_set ?k ''jacobi'' ?w1"
    let ?w2' = "PETScOptions_set ?k ''jacobi'' ?w1'"
    have a2: "agree ?S ?w2 ?w2'"
      using a1 by (simp add: agree_def PETScOptions_set_def)
    have "fval B (heap ?w1') q p ?a2 = fval B (heap ?w1) q p ?a2" for q p
      using a1 ca by (intro fval_agree) (auto simp add: agree_def)
    then have A: "assemble_matrix B (heap ?w1') ?a2 = assemble_matrix B (heap ?w1) ?a2"
      by (simp add: assemble_matrix_def)
    have "fval B (heap ?w1') q p ?L2 = fval B (heap ?w1) q p ?L2" for q p
      using a1 cL by (intro fval_agree) (auto simp add: agree_def)
    then have b: "assemble_vector B (heap ?w1') ?L2 = assemble_vector B (heap ?w1) ?L2"
      by (simp add: assemble_vector_def)
    let ?A = "assemble_matrix B (heap ?w1) ?a2"
    let ?b = "assemble_vector B (heap ?w1) ?L2"
    have s: "fst (krylov_solve B ''cg'' ''hypre_amg'' (neumann_parameters tol verbose) ?A
                (next_id w) ?b ?w2') =
        fst (krylov_solve B ''cg'' ''hypre_amg'' (neumann_parameters tol verbose) ?A
                (next_id w) ?b ?w2)
      \<and> agree ?S (snd (krylov_solve B ''cg'' ''hypre_amg'' (neumann_parameters tol verbose) ?A
                (next_id w) ?b ?w2))
          (snd (krylov_solve B ''cg'' ''hypre_amg'' (neumann_parameters tol verbose) ?A
                (next_id w) ?b ?w2'))"
      by (rule krylov_solve_agree [OF a2]) simp
    have r: "compute_pressure B (Some p0) alpha rho dt mu d p_bcs pfs rot tol verbose w =
        (case fst (krylov_solve B ''cg'' ''hypre_amg'' (neumann_parameters tol verbose) ?A
                (next_id w) ?b ?w2) of
           Inl e \<Rightarrow> Inl e | Inr _ \<Rightarrow> Inr ?p1,
         snd (krylov_solve B ''cg'' ''hypre_amg'' (neumann_parameters tol verbose) ?A
                (next_id w) ?b ?w2))"
      using False
      by (simp add: compute_pressure_def Let_def new_Function_def split: sum.splits)
    have r': "compute_pressure B (Some p0) alpha rho dt mu d p_bcs pfs rot tol verbose w' =
        (case fst (krylov_solve B ''cg'' ''hypre_amg'' (neumann_parameters tol verbose) ?A
                (next_id w) ?b ?w2') of
           Inl e \<Rightarrow> Inl e | Inr _ \<Rightarrow> Inr ?p1,
         snd (krylov_solve B ''cg'' ''hypre_amg'' (neumann_parameters tol verbose) ?A
                (next_id w) ?b ?w2'))"
      using False n A b
      by (simp add: compute_pressure_def Let_def new_Function_def split: sum.splits)
    show ?thesis
      unfolding r r' using s by (auto split: sum.splits)
  qed
qed

lemma compute_velocity_correction_agree:
  assumes "agree S w w'" and "fid ui \<in> S" and "fid p1 \<in> S" and "fid p0 \<in> S"
  shows "fst (compute_velocity_correction B ui u bcs p1 p0 v mu rho dt rot tol verbose w') =
         fst (compute_velocity_correction B ui u bcs p1 p0 v mu rho dt rot tol verbose w)
       \<and> agree S
           (snd (compute_velocity_correction B ui u bcs p1 p0 v mu rho dt rot tol verbose w))
           (snd (compute_velocity_correction B ui u bcs p1 p0 v mu rho dt rot tol verbose w'))
       \<and> (\<forall>u1. fst (compute_velocity_correction B ui u bcs p1 p0 v mu rho dt rot tol verbose w)
                  = Inr u1 \<longrightarrow>
             fid u1 = next_id w
           \<and> agree (insert (next_id w) S)
               (snd (compute_velocity_correction B ui u bcs p1 p0 v mu rho dt rot tol verbose w))
               (snd (compute_velocity_correction B ui u bcs p1 p0 v mu rho dt rot tol verbose w')))"
proof (cases "u 0")
  case None
  then show ?thesis using assms(1)
    by (simp add: compute_velocity_correction_def getitem_def)
next
  case (Some u0)
  let ?V = "function_space u0"
  let ?u1 = "Func (next_id w) ?V"
  let ?S = "insert (next_id w) S"
  let ?w1 = "snd (new_Function B ?V w)"
  let ?w1' = "snd (new_Function B ?V w')"
  let ?a3 = "mul_dx (Inner (Arg (TrialFunction ?V)) (Arg v))"
  let ?L3 = "form_sub (mul_dx (Inner (Coefficient ui) (Arg v)))
                (mul_dx (Product (Division (Constant dt) (Constant rho))
                           (Inner (Grad (correction_phi ui p1 p0 mu rot)) (Arg v))))"
  have n: "next_id w' = next_id w" using assms(1) by (simp add: agree_def)
  have a1: "agree ?S ?w1 ?w1'"
    using agree_new_Function [OF assms(1)] by blast
  have ca: "form_coeffs ?a3 \<subseteq> ?S" and cL: "form_coeffs ?L3 \<subseteq> ?S"
    using assms(2-4) by (auto simp add: form_coeffs_simps correction_phi_def Let_def)
  have s: "fst (solve_linear B ?a3 ?L3 ?u1 bcs (linear_parameters tol verbose) ?w1') =
        fst (solve_linear B ?a3 ?L3 ?u1 bcs (linear_parameters tol verbose) ?w1)
      \<and> agree ?S (snd (solve_linear B ?a3 ?L3 ?u1 bcs (linear_parameters tol verbose) ?w1))
          (snd (solve_linear B ?a3 ?L3 ?u1 bcs (linear_parameters tol verbose) ?w1'))"
    by (rule solve_linear_agree [OF a1 _ ca cL]) simp
  have r: "compute_velocity_correction B ui u bcs p1 p0 v mu rho dt rot tol verbose w =
      (case fst (solve_linear B ?a3 ?L3 ?u1 bcs (linear_parameters tol verbose) ?w1) of
         Inl e \<Rightarrow> Inl e | Inr _ \<Rightarrow> Inr ?u1,
       snd (solve_linear B ?a3 ?L3 ?u1 bcs (linear_parameters tol verbose) ?w1))"
    using Some
    by (simp add: compute_velocity_correction_def getitem_def Let_def new_Function_def
        split: sum.splits)
  have r': "compute_velocity_correction B ui u bcs p1 p0 v mu rho dt rot tol verbose w' =
      (case fst (solve_linear B ?a3 ?L3 ?u1 bcs (linear_parameters tol verbose) ?w1') of
         Inl e \<Rightarrow> Inl e | Inr _ \<Rightarrow> Inr ?u1,
       snd (solve_linear B ?a3 ?L3 ?u1 bcs (linear_parameters tol verbose) ?w1'))"
    using Some n
    by (simp add: compute_velocity_correction_def getitem_def Let_def new_Function_def
        split: sum.splits)
  show ?thesis
    unfolding r r' using s agree_subset [of ?S _ _ S]
    by (auto split: sum.splits)
qed


lemma step_stages:
  "step B dt u p0 u_bcs p_bcs rho mu m f rot verbose tol w =
     (if \<not> dt > 0 then (Inl AssertionError, w)
      else if \<not> mu > 0 then (Inl AssertionError, w)
      else
        (case u 0 of
           None \<Rightarrow> (Inl LookupError, w)
         | Some u0 \<Rightarrow>
            (let v = TestFunction (function_space u0);
                 r1 = Message ''Computing tentative velocity''
                        (compute_tentative_velocity B u p0 f u_bcs m rho mu dt v (1 / 10 ^ 10)) w
             in case fst r1 of
                  Inl e \<Rightarrow> (Inl e, snd r1)
                | Inr (ui, alpha) \<Rightarrow>
                    pressure_stage B ui alpha u u_bcs p_bcs p0 v mu rho dt rot tol verbose
                      (snd r1))))"
  by (simp add: step_def pressure_stage_def correction_stage_def getitem_def Let_def
      split: option.splits sum.splits prod.splits)

lemma correction_stage_agree:
  assumes "agree S w w'" and "fid ui \<in> S" and "fid p1 \<in> S" and "fid p0 \<in> S"
  shows "fst (correction_stage B ui u bcs p1 p0 v mu rho dt rot tol verbose w') =
         fst (correction_stage B ui u bcs p1 p0 v mu rho dt rot tol verbose w)
       \<and> agree S (snd (correction_stage B ui u bcs p1 p0 v mu rho dt rot tol verbose w))
                 (snd (correction_stage B ui u bcs p1 p0 v mu rho dt rot tol verbose w'))
       \<and> (\<forall>u1 q1. fst (correction_stage B ui u bcs p1 p0 v mu rho dt rot tol verbose w)
                     = Inr (u1, q1) \<longrightarrow>
             heap (snd (correction_stage B ui u bcs p1 p0 v mu rho dt rot tol verbose w'))
                (fid u1) =
             heap (snd (correction_stage B ui u bcs p1 p0 v mu rho dt rot tol verbose w))
                (fid u1)
           \<and> heap (snd (correction_stage B ui u bcs p1 p0 v mu rho dt rot tol verbose w'))
                (fid q1) =
             heap (snd (correction_stage B ui u bcs p1 p0 v mu rho dt rot tol verbose w))
                (fid q1))"
proof -
  let ?w0 = "w\<lparr>messages := messages w @ [Enter ''Computing velocity correction'']\<rparr>"
  let ?w0' = "w'\<lparr>messages := messages w' @ [Enter ''Computing velocity correction'']\<rparr>"
  have a: "agree S ?w0 ?w0'" using assms(1) by simp
  note c = compute_velocity_correction_agree [OF a assms(2-4),
      of B u bcs v mu rho dt rot tol verbose]
  have n: "next_id ?w0 = next_id w" by simp
  show ?thesis
    using c assms(3) unfolding n
    by (auto simp add: correction_stage_def Message_def Let_def agree_def split: sum.splits)
qed

lemma pressure_stage_agree:
  assumes "agree S w w'" and "fid ui \<in> S" and "fid p0 \<in> S"
  shows "fst (pressure_stage B ui alpha u bcs p_bcs p0 v mu rho dt rot tol verbose w') =
         fst (pressure_stage B ui alpha u bcs p_bcs p0 v mu rho dt rot tol verbose w)
       \<and> agree S (snd (pressure_stage B ui alpha u bcs p_bcs p0 v mu rho dt rot tol verbose w))
                 (snd (pressure_stage B ui alpha u bcs p_bcs p0 v mu rho dt rot tol verbose w'))
       \<and> (\<forall>u1 q1. fst (pressure_stage B ui alpha u bcs p_bcs p0 v mu rho dt rot tol verbose w)
                     = Inr (u1, q1) \<longrightarrow>
             heap (snd (pressure_stage B ui alpha u bcs p_bcs p0 v mu rho dt rot tol verbose w'))
                (fid u1) =
             heap (snd (pressure_stage B ui alpha u bcs p_bcs p0 v mu rho dt rot tol verbose w))
                (fid u1)
           \<and> heap (snd (pressure_stage B ui alpha u bcs p_bcs p0 v mu rho dt rot tol verbose w'))
                (fid q1) =
             heap (snd (pressure_stage B ui alpha u bcs p_bcs p0 v mu rho dt rot tol verbose w))
                (fid q1))"
proof -
  let ?w0 = "w\<lparr>messages := messages w @ [Enter ''Computing pressure'']\<rparr>"
  let ?w0' = "w'\<lparr>messages := messages w' @ [Enter ''Computing pressure'']\<rparr>"
  let ?c = "compute_pressure B (Some p0) alpha rho dt mu (Div (Coefficient ui)) p_bcs None
              rot tol verbose"
  let ?S = "insert (next_id w) S"
  have a: "agree S ?w0 ?w0'" using assms(1) by simp
  have d: "coeffs (Div (Coefficient ui)) \<subseteq> S" using assms(2) by simp
  have c: "fst (?c ?w0') = fst (?c ?w0)"
    "agree ?S (snd (?c ?w0)) (snd (?c ?w0'))"
    "\<forall>p1. fst (?c ?w0) = Inr p1 \<longrightarrow> fid p1 = next_id w"
    using compute_pressure_agree [OF a assms(3) d, of B alpha rho dt mu p_bcs None rot tol verbose]
    by simp_all
  show ?thesis
  proof (cases "fst (?c ?w0)")
    case (Inl e)
    then show ?thesis
      using c agree_subset [OF c(2), of S]
      by (auto simp add: pressure_stage_def Message_def Let_def)
  next
    case (Inr p1)
    let ?m1 = "(snd (?c ?w0))\<lparr>messages := messages (snd (?c ?w0)) @ [Exit ''Computing pressure'']\<rparr>"
    let ?m1' = "(snd (?c ?w0'))\<lparr>messages := messages (snd (?c ?w0')) @ [Exit ''Computing pressure'']\<rparr>"
    have p1: "fid p1 \<in> ?S" using c(3) Inr by simp
    have a1: "agree ?S ?m1 ?m1'" using c(2) by simp
    note k = correction_stage_agree [OF a1 _ p1, of ui p0 B u bcs v mu rho dt rot tol verbose]
    have r: "pressure_stage B ui alpha u bcs p_bcs p0 v mu rho dt rot tol verbose w =
        correction_stage B ui u bcs p1 p0 v mu rho dt rot tol verbose ?m1"
      using Inr by (simp add: pressure_stage_def Message_def Let_def)
    have r': "pressure_stage B ui alpha u bcs p_bcs p0 v mu rho dt rot tol verbose w' =
        correction_stage B ui u bcs p1 p0 v mu rho dt rot tol verbose ?m1'"
      using Inr c(1) by (simp add: pressure_stage_def Message_def Let_def)
    show ?thesis
      unfolding r r' using k assms(2,3) agree_subset [of ?S _ _ S]
      by auto
  qed
qed


lemma step_agree:
  assumes "agree S w w'" and "step_inputs u p0 f \<subseteq> S"
  shows "fst (step B dt u p0 u_bcs p_bcs rho mu m f rot verbose tol w') =
         fst (step B dt u p0 u_bcs p_bcs rho mu m f rot verbose tol w)
       \<and> agree S (snd (step B dt u p0 u_bcs p_bcs rho mu m f rot verbose tol w))
                 (snd (step B dt u p0 u_bcs p_bcs rho mu m f rot verbose tol w'))
       \<and> (\<forall>u1 p1. fst (step B dt u p0 u_bcs p_bcs rho mu m f rot verbose tol w) = Inr (u1, p1)
            \<longrightarrow>
             heap (snd (step B dt u p0 u_bcs p_bcs rho mu m f rot verbose tol w')) (fid u1) =
             heap (snd (step B dt u p0 u_bcs p_bcs rho mu m f rot verbose tol w)) (fid u1)
           \<and> heap (snd (step B dt u p0 u_bcs p_bcs rho mu m f rot verbose tol w')) (fid p1) =
             heap (snd (step B dt u p0 u_bcs p_bcs rho mu m f rot verbose tol w)) (fid p1))"
proof (cases "0 < dt \<and> 0 < mu")
  case False
  then show ?thesis using assms(1) by (auto simp add: step_stages)
next
  case True
  show ?thesis
  proof (cases "u 0")
    case None
    then show ?thesis using True assms(1) by (simp add: step_stages)
  next
    case (Some u0)
    let ?v = "TestFunction (function_space u0)"
    let ?w0 = "w\<lparr>messages := messages w @ [Enter ''Computing tentative velocity'']\<rparr>"
    let ?w0' = "w'\<lparr>messages := messages w' @ [Enter ''Computing tentative velocity'']\<rparr>"
    let ?c = "compute_tentative_velocity B u p0 f u_bcs m rho mu dt ?v (1 / 10 ^ 10)"
    let ?S = "insert (next_id w) S"
    let ?m1 = "(snd (?c ?w0))\<lparr>messages := messages (snd (?c ?w0))
                  @ [Exit ''Computing tentative velocity'']\<rparr>"
    let ?m1' = "(snd (?c ?w0'))\<lparr>messages := messages (snd (?c ?w0'))
                  @ [Exit ''Computing tentative velocity'']\<rparr>"
    have a: "agree S ?w0 ?w0'" using assms(1) by simp
    have p0: "fid p0 \<in> S" using assms(2) by (auto simp add: step_inputs_def)
    have c: "fst (?c ?w0') = fst (?c ?w0)"
      "agree S (snd (?c ?w0)) (snd (?c ?w0'))"
      "\<forall>ui al. fst (?c ?w0) = Inr (ui, al) \<longrightarrow>
          fid ui = next_id w \<and> agree ?S (snd (?c ?w0)) (snd (?c ?w0'))"
      using compute_tentative_velocity_agree [OF a assms(2), of B u_bcs m rho mu dt ?v "1 / 10 ^ 10"]
      by simp_all
    show ?thesis
    proof (cases "fst (?c ?w0)")
      case (Inl e)
      then show ?thesis
        using True Some c(1,2)
        by (simp add: step_stages Message_def Let_def)
    next
      case (Inr ua)
      obtain ui al where ua: "ua = (ui, al)" by (cases ua)
      have ui: "fid ui \<in> ?S" and a1: "agree ?S ?m1 ?m1'"
        using c(3) Inr ua by simp_all
      note k = pressure_stage_agree [OF a1 ui, of p0 B al u u_bcs p_bcs ?v mu rho dt rot tol verbose]
      have r: "step B dt u p0 u_bcs p_bcs rho mu m f rot verbose tol w =
          pressure_stage B ui al u u_bcs p_bcs p0 ?v mu rho dt rot tol verbose ?m1"
        using True Some Inr ua by (simp add: step_stages Message_def Let_def)
      have r': "step B dt u p0 u_bcs p_bcs rho mu m f rot verbose tol w' =
          pressure_stage B ui al u u_bcs p_bcs p0 ?v mu rho dt rot tol verbose ?m1'"
        using True Some Inr ua c(1) by (simp add: step_stages Message_def Let_def)
      show ?thesis
        unfolding r r' using k p0 agree_subset [of ?S _ _ S]
        by auto
    qed
  qed
qed

lemma step_leaves_fields:
  "leaves_fields w (step B dt u p_old u_bcs p_bcs rho mu m f rot verbose tol w)"
proof (cases "0 < dt \<and> 0 < mu")
  case False
  then have "step B dt u p_old u_bcs p_bcs rho mu m f rot verbose tol w = (Inl AssertionError, w)"
    by (intro step_asserts) auto
  then show ?thesis by (simp add: leaves_fields_def)
next
  case True
  then have dt: "0 < dt" and mu: "0 < mu" by auto
  show ?thesis
  proof (cases "u 0")
    case None
    show ?thesis
      by (simp add: leaves_fields_def step_no_history [where u = u, OF dt mu None])
  next
    case (Some u_old)
    show ?thesis
    proof (cases "tentative_residual (Func (next_id w) (function_space u_old)) u p_old f m rho mu dt
           (TestFunction (function_space u_old))")
      case (Inl e)
      show ?thesis
        by (simp add: leaves_fields_def step_residual_error [where u = u, OF dt mu Some Inl])
    next
      case (Inr af)
      obtain alpha F where af: "af = (alpha, F)" by (cases af)
      from step_run [where u = u, OF dt mu Some Inr [unfolded af], of B u_bcs p_bcs rot verbose tol]
      obtain c1 c2 c3 W where
        r: "step B dt u p_old u_bcs p_bcs rho mu m f rot verbose tol w =
          (if c1 \<and> c2 \<and> c3
           then Inr (Func (Suc (Suc (next_id w))) (function_space u_old),
                     Func (Suc (next_id w)) (function_space p_old))
           else Inl RuntimeError, W)"
        and n: "next_id W = (if c1 then if c2 then Suc (Suc (Suc (next_id w)))
                                  else Suc (Suc (next_id w))
                       else Suc (next_id w))"
        and h: "\<forall>i < next_id w. heap W i = heap w i"
        by (elim exE conjE) simp
      show ?thesis
        unfolding r leaves_fields_def using n h by auto
    qed
  qed
qed

lemma Chorin_step_leaves_fields:
  "leaves_fields w (Chorin_step B dt u p_old u_bcs p_bcs rho mu f verbose tol w)"
proof -
  let ?w1 = "w\<lparr>heap := (heap w)(next_id w := b_zero B (function_space p_old)),
               next_id := Suc (next_id w)\<rparr>"
  let ?p = "Func (next_id w) (function_space p_old)"
  have r: "Chorin_step B dt u p_old u_bcs p_bcs rho mu f verbose tol w =
      step B dt u ?p u_bcs p_bcs rho mu ''backward euler'' f False verbose tol ?w1"
    by (simp add: Chorin_step_def new_Function_def Let_def)
  have "leaves_fields ?w1
      (step B dt u ?p u_bcs p_bcs rho mu ''backward euler'' f False verbose tol ?w1)"
    by (rule step_leaves_fields)
  then show ?thesis
    unfolding r leaves_fields_def by (auto split: sum.splits)
qed

text \<open>The definitions to unfold when a step is run on concrete input.\<close>

lemmas run_simps = step_def Message_def compute_tentative_velocity_def getitem_def u_hist_def
      f_hist_def new_Function_def tentative_residual_def assign_def
      solve_nonlinear_def error_on_nonconvergence_def sub_parameters_def
      newton_parameters_def compute_pressure_def truthy_def krylov_solve_def
      neumann_parameters_def PETScOptions_set_def compute_velocity_correction_def
      solve_linear_def linear_parameters_def Let_def

subsection \<open>The solver calls of a step\<close>

lemma compute_pressure_call:
  "\<exists>conv x. compute_pressure B (Some p_old) alpha rho dt mu d p_bcs pfs rot tol verbose w =
     (if conv then Inr (Func (next_id w) (function_space p_old)) else Inl RuntimeError,
      w\<lparr>heap := (heap w)(next_id w := x), next_id := Suc (next_id w),
        petsc_options :=
          (if truthy p_bcs then petsc_options w
           else AList.update ''pc_hypre_boomeramg_relax_type_coarse'' ''jacobi''
                  (petsc_options w)),
        calls := calls w @
          [if truthy p_bcs
           then LinearSolve (pressure_a2 (function_space p_old))
                  (pressure_L2 (function_space p_old) p_old alpha rho dt mu d rot)
                  (Func (next_id w) (function_space p_old))
                  (case p_bcs of Some bs \<Rightarrow> bs | None \<Rightarrow> [])
                  (linear_parameters tol verbose) conv
           else KrylovSolve ''cg'' ''hypre_amg''
                  (AList.update ''pc_hypre_boomeramg_relax_type_coarse'' ''jacobi''
                     (petsc_options w))
                  (assemble_matrix B ((heap w)(next_id w := b_zero B (function_space p_old)))
                     (pressure_a2 (function_space p_old)))
                  (assemble_vector B ((heap w)(next_id w := b_zero B (function_space p_old)))
                     (pressure_L2 (function_space p_old) p_old alpha rho dt mu d rot))
                  (next_id w) (neumann_parameters tol verbose) conv]\<rparr>)"
proof (cases "truthy p_bcs")
  case True
  then obtain b0 bs where b: "p_bcs = Some (b0 # bs)"
    by (auto simp add: truthy_def split: option.splits list.splits)
  show ?thesis
    using compute_pressure_dirichlet [OF b, of B p_old alpha rho dt mu d pfs rot tol verbose w]
      True b by (simp add: after_linear_def)
next
  case False
  show ?thesis
    using compute_pressure_neumann [OF False, of B p_old alpha rho dt mu d pfs rot tol verbose w]
      False by (simp add: after_krylov_def)
qed

lemma step_trace:
  fixes B :: "'a backend"
  assumes "0 < dt" and "0 < mu" and "u 0 = Some u_old"
    and "tentative_residual (Func (next_id w) (function_space u_old)) u p_old f m rho mu dt
           (TestFunction (function_space u_old)) = Inr (alpha, F)"
  shows
    "\<exists>c1 x1 c2 c3.
       fst (step B dt u p_old u_bcs p_bcs rho mu m f rot verbose tol w) =
        (if c1 \<and> c2 \<and> c3
         then Inr (Func (Suc (Suc (next_id w))) (function_space u_old),
                   Func (Suc (next_id w)) (function_space p_old))
         else Inl RuntimeError)
     \<and> calls (snd (step B dt u p_old u_bcs p_bcs rho mu m f rot verbose tol w)) =
         calls w @
           NonlinearSolve F (Func (next_id w) (function_space u_old)) u_bcs
             (Derivative F (Func (next_id w) (function_space u_old)))
             (((heap w)(next_id w := b_zero B (function_space u_old))) (fid u_old))
             (newton_parameters (1 / 10 ^ 10)) c1
           # (if c1 then
                (if truthy p_bcs
                 then LinearSolve (pressure_a2 (function_space p_old))
                        (pressure_L2 (function_space p_old) p_old alpha rho dt mu
                           (Div (Coefficient (Func (next_id w) (function_space u_old)))) rot)
                        (Func (Suc (next_id w)) (function_space p_old))
                        (case p_bcs of Some bs \<Rightarrow> bs | None \<Rightarrow> [])
                        (linear_parameters tol verbose) c2
                 else KrylovSolve ''cg'' ''hypre_amg''
                        (AList.update ''pc_hypre_boomeramg_relax_type_coarse'' ''jacobi''
                           (petsc_options w))
                        (assemble_matrix B
                           ((heap w)(next_id w := x1,
                               Suc (next_id w) := b_zero B (function_space p_old)))
                           (pressure_a2 (function_space p_old)))
                        (assemble_vector B
                           ((heap w)(next_id w := x1,
                               Suc (next_id w) := b_zero B (function_space p_old)))
                           (pressure_L2 (function_space p_old) p_old alpha rho dt mu
                              (Div (Coefficient (Func (next_id w) (function_space u_old)))) rot))
                        (Suc (next_id w)) (neumann_parameters tol verbose) c2)
                # (if c2 then
                     [LinearSolve
                        (mul_dx (Inner (Arg (TrialFunction (function_space u_old)))
                                   (Arg (TestFunction (function_space u_old)))))
                        (form_sub
                           (mul_dx (Inner (Coefficient (Func (next_id w) (function_space u_old)))
                                      (Arg (TestFunction (function_space u_old)))))
                           (mul_dx (Product (Division (Constant dt) (Constant rho))
                              (Inner (Grad (correction_phi
                                        (Func (next_id w) (function_space u_old))
                                        (Func (Suc (next_id w)) (function_space p_old))
                                        p_old mu rot))
                                 (Arg (TestFunction (function_space u_old)))))))
                        (Func (Suc (Suc (next_id w))) (function_space u_old)) u_bcs
                        (linear_parameters tol verbose) c3]
                   else [])
              else [])"
proof -
  let ?V = "function_space u_old"
  let ?P = "function_space p_old"
  let ?v = "TestFunction ?V"
  let ?ui = "Func (next_id w) ?V"
  let ?p1 = "Func (Suc (next_id w)) ?P"
  let ?u1 = "Func (Suc (Suc (next_id w))) ?V"
  let ?d = "Div (Coefficient ?ui)"
  let ?k = "''pc_hypre_boomeramg_relax_type_coarse''"
  let ?a3 = "mul_dx (Inner (Arg (TrialFunction ?V)) (Arg ?v))"
  let ?L3 = "form_sub (mul_dx (Inner (Coefficient ?ui) (Arg ?v)))
                (mul_dx (Product (Division (Constant dt) (Constant rho))
                           (Inner (Grad (correction_phi ?ui ?p1 p_old mu rot)) (Arg ?v))))"
  define w0 where "w0 = w\<lparr>messages := messages w @ [Enter ''Computing tentative velocity'']\<rparr>"
  define g where "g = ((heap w)(next_id w := b_zero B ?V)) (fid u_old)"
  have n0: "next_id w0 = next_id w" "heap w0 = heap w" by (simp_all add: w0_def)
  have res: "tentative_residual (Func (next_id w0) ?V) u p_old f m rho mu dt ?v = Inr (alpha, F)"
    using assms(4) unfolding n0 .
  obtain c1 x1 where t:
    "compute_tentative_velocity B u p_old f u_bcs m rho mu dt ?v (1 / 10 ^ 10) w0 =
       after_newton w0 ?ui alpha F u_bcs g (newton_parameters (1 / 10 ^ 10)) c1 x1"
    using compute_tentative_velocity_spec [where u = u, OF assms(3) res, of B u_bcs "1 / 10 ^ 10"]
    unfolding n0 g_def by (elim exE)
  define w1 where "w1 = w\<lparr>heap := (heap w)(next_id w := x1), next_id := Suc (next_id w),
       calls := calls w @ [NonlinearSolve F ?ui u_bcs (Derivative F ?ui) g
                             (newton_parameters (1 / 10 ^ 10)) c1],
       messages := messages w @ [Enter ''Computing tentative velocity'',
            Exit ''Computing tentative velocity'', Enter ''Computing pressure'']\<rparr>"
  have n1: "next_id w1 = Suc (next_id w)" "petsc_options w1 = petsc_options w"
    "heap w1 = (heap w)(next_id w := x1)"
    by (simp_all add: w1_def)
  define pc where "pc = (\<lambda>c2.
      if truthy p_bcs
      then LinearSolve (pressure_a2 ?P) (pressure_L2 ?P p_old alpha rho dt mu ?d rot) ?p1
             (case p_bcs of Some bs \<Rightarrow> bs | None \<Rightarrow> []) (linear_parameters tol verbose) c2
      else KrylovSolve ''cg'' ''hypre_amg'' (AList.update ?k ''jacobi'' (petsc_options w))
             (assemble_matrix B ((heap w)(next_id w := x1, Suc (next_id w) := b_zero B ?P))
                (pressure_a2 ?P))
             (assemble_vector B ((heap w)(next_id w := x1, Suc (next_id w) := b_zero B ?P))
                (pressure_L2 ?P p_old alpha rho dt mu ?d rot))
             (Suc (next_id w)) (neumann_parameters tol verbose) c2)"
  obtain c2 x2 where p:
    "compute_pressure B (Some p_old) alpha rho dt mu ?d p_bcs None rot tol verbose w1 =
      (if c2 then Inr ?p1 else Inl RuntimeError,
       w1\<lparr>heap := (heap w1)(next_id w1 := x2), next_id := Suc (next_id w1),
         petsc_options := (if truthy p_bcs then petsc_options w
                           else AList.update ?k ''jacobi'' (petsc_options w)),
         calls := calls w1 @ [pc c2]\<rparr>)"
    using compute_pressure_call [of B p_old alpha rho dt mu ?d p_bcs None rot tol verbose w1]
    unfolding n1 pc_def by (elim exE)
  define w2 where "w2 = w1\<lparr>heap := (heap w1)(next_id w1 := x2), next_id := Suc (next_id w1),
         petsc_options := (if truthy p_bcs then petsc_options w
                           else AList.update ?k ''jacobi'' (petsc_options w)),
         calls := calls w1 @ [pc c2],
         messages := messages w1 @ [Exit ''Computing pressure'',
            Enter ''Computing velocity correction'']\<rparr>"
  have n2: "next_id w2 = Suc (Suc (next_id w))" by (simp add: w2_def w1_def)
  obtain c3 x3 where c0:
    "compute_velocity_correction B ?ui u u_bcs ?p1 p_old ?v mu rho dt rot tol verbose w2 =
       after_linear w2 ?u1 ?a3 ?L3 u_bcs (linear_parameters tol verbose) c3 x3"
    using compute_velocity_correction_spec [where u = u, OF assms(3),
        of B ?ui u_bcs ?p1 p_old ?v mu rho dt rot tol verbose w2]
    unfolding n2 by (elim exE)
  define cc :: "'a call" where "cc = LinearSolve ?a3 ?L3 ?u1 u_bcs (linear_parameters tol verbose) c3"
  have c:
    "compute_velocity_correction B ?ui u u_bcs ?p1 p_old ?v mu rho dt rot tol verbose w2 =
      (if c3 then Inr ?u1 else Inl RuntimeError,
       w2\<lparr>heap := (heap w2)(next_id w2 := x3), next_id := Suc (next_id w2),
         calls := calls w2 @ [cc]\<rparr>)"
    using c0 by (simp add: after_linear_def cc_def n2)
  define pcall where "pcall = pc c2"
  define opts where "opts = (if truthy p_bcs then petsc_options w
                           else AList.update ?k ''jacobi'' (petsc_options w))"
  note p' = p [folded pcall_def opts_def]
  have r: "step B dt u p_old u_bcs p_bcs rho mu m f rot verbose tol w =
        (if c1 \<and> c2 \<and> c3
         then Inr (Func (Suc (Suc (next_id w))) ?V, ?p1)
         else Inl RuntimeError,
         w\<lparr>heap := (if c1 then if c2 then (heap w)(next_id w := x1, Suc (next_id w) := x2,
                                              Suc (Suc (next_id w)) := x3)
                                 else (heap w)(next_id w := x1, Suc (next_id w) := x2)
                      else (heap w)(next_id w := x1)),
           next_id := (if c1 then if c2 then Suc (Suc (Suc (next_id w)))
                                  else Suc (Suc (next_id w))
                       else Suc (next_id w)),
           petsc_options := (if c1 then opts else petsc_options w),
           calls := calls w @
              NonlinearSolve F ?ui u_bcs (Derivative F ?ui) g
                (newton_parameters (1 / 10 ^ 10)) c1
              # (if c1 then pcall # (if c2 then [cc] else []) else []),
           messages := messages w @
              [Enter ''Computing tentative velocity'', Exit ''Computing tentative velocity'']
              @ (if c1 then [Enter ''Computing pressure'', Exit ''Computing pressure'']
                   @ (if c2 then [Enter ''Computing velocity correction'',
                                  Exit ''Computing velocity correction''] else [])
                 else [])\<rparr>)"
    using assms(1-3) t p' c
    unfolding w2_def [folded pcall_def opts_def] w1_def w0_def after_newton_def
    by (cases c1; cases c2; cases c3) (simp_all add: step_def Message_def Let_def getitem_def)
  have "fst (step B dt u p_old u_bcs p_bcs rho mu m f rot verbose tol w) =
        (if c1 \<and> c2 \<and> c3 then Inr (?u1, ?p1) else Inl RuntimeError)
     \<and> calls (snd (step B dt u p_old u_bcs p_bcs rho mu m f rot verbose tol w)) =
         calls w @ NonlinearSolve F ?ui u_bcs (Derivative F ?ui) g
                (newton_parameters (1 / 10 ^ 10)) c1
              # (if c1 then pc c2 # (if c2 then [cc] else []) else [])"
    unfolding r pcall_def by simp
  thus ?thesis
    unfolding cc_def pc_def g_def by blast
qed

lemma step_trace_valid:
  fixes B :: "'a backend"
  assumes "0 < dt" and "0 < mu" and "u 0 = Some u_old"
    and "f 0 = Some f_old" and "f 1 = Some f_new"
    and "m = ''forward euler'' \<or> m = ''backward euler'' \<or> m = ''crank-nicolson''"
  shows
    "\<exists>F c1 x1 c2 c3.
             tentative_residual (Func (next_id w) (function_space u_old)) u p_old f m rho mu dt (TestFunction (function_space u_old)) = Inr (1, F)
           \<and> fst (step B dt u p_old u_bcs p_bcs rho mu m f rot verbose tol w) = (if c1 \<and> c2 \<and> c3 then Inr (Func (Suc (Suc (next_id w))) (function_space u_old), Func (Suc (next_id w)) (function_space p_old))
                      else Inl RuntimeError)
           \<and> calls (snd (step B dt u p_old u_bcs p_bcs rho mu m f rot verbose tol w)) = calls w @
               NonlinearSolve F (Func (next_id w) (function_space u_old)) u_bcs (Derivative F (Func (next_id w) (function_space u_old)))
                 (((heap w)((next_id w) := b_zero B (function_space u_old))) (fid u_old)) (newton_parameters (1 / 10 ^ 10)) c1
               # (if c1 then
                    (if truthy p_bcs
                     then LinearSolve (pressure_a2 (function_space p_old))
                            (pressure_L2 (function_space p_old) p_old 1 rho dt mu (Div (Coefficient (Func (next_id w) (function_space u_old)))) rot)
                            (Func (Suc (next_id w)) (function_space p_old)) (case p_bcs of Some bs \<Rightarrow> bs | None \<Rightarrow> [])
                            (linear_parameters tol verbose) c2
                     else KrylovSolve ''cg'' ''hypre_amg''
                            (AList.update ''pc_hypre_boomeramg_relax_type_coarse'' ''jacobi''
                               (petsc_options w))
                            (assemble_matrix B ((heap w)((next_id w) := x1, Suc (next_id w) := b_zero B (function_space p_old))) (pressure_a2 (function_space p_old)))
                            (assemble_vector B ((heap w)((next_id w) := x1, Suc (next_id w) := b_zero B (function_space p_old)))
                               (pressure_L2 (function_space p_old) p_old 1 rho dt mu (Div (Coefficient (Func (next_id w) (function_space u_old)))) rot))
                            (Suc (next_id w)) (neumann_parameters tol verbose) c2)
                    # (if c2 then
                         [LinearSolve
                            (mul_dx (Inner (Arg (TrialFunction (function_space u_old))) (Arg (TestFunction (function_space u_old)))))
                            (form_sub
                               (mul_dx (Inner (Coefficient (Func (next_id w) (function_space u_old))) (Arg (TestFunction (function_space u_old)))))
                               (mul_dx (Product (Division (Constant dt) (Constant rho))
                                  (Inner (Grad (correction_phi (Func (next_id w) (function_space u_old)) (Func (Suc (next_id w)) (function_space p_old))
                                                  p_old mu rot))
                                     (Arg (TestFunction (function_space u_old)))))))
                            (Func (Suc (Suc (next_id w))) (function_space u_old)) u_bcs (linear_parameters tol verbose) c3]
                       else [])
                  else [])"
proof -
  let ?ui = "Func (next_id w) (function_space u_old)"
  let ?v = "TestFunction (function_space u_old)"
  have "\<exists>F. tentative_residual ?ui u p_old f m rho mu dt ?v = Inr (1, F)"
    using assms(6)
      forward_euler_residual [where u = u and f = f, OF assms(3) assms(4)]
      backward_euler_residual [where u = u and f = f, OF assms(3) assms(5)]
      crank_nicolson_residual [where u = u and f = f, OF assms(3) assms(4) assms(5)]
    by (elim disjE) simp_all
  then obtain F where F: "tentative_residual ?ui u p_old f m rho mu dt ?v = Inr (1, F)" ..
  from step_trace [where u = u, OF assms(1-3) F, of B u_bcs p_bcs rot verbose tol] F
  show ?thesis by (intro exI [of _ F]) simp
qed

section \<open>The claims\<close>

text \<open>
  C1. The spec: a time step with a non-positive \<open>rho\<close>, \<open>mu\<close> or \<open>dt\<close> fails with a
  precondition error before any sub-solve. The code asserts \<open>dt > 0\<close> and \<open>mu > 0\<close>
  only. With \<open>rho = -1\<close> (and \<open>dt = mu = 1\<close>) the step runs its three solves and
  returns a velocity and a pressure, whereas with \<open>mu = -1\<close> or \<open>dt = -1\<close> it fails
  at once and leaves the world as it was.
\<close>

theorem step_nonpositive_rho_not_rejected:
  "fst (step (scalar_backend True True True) 1 u_hist (Func 2 1) [] None (-1) 1
          ''backward euler'' f_hist False True (1 / 10 ^ 10) world0)
     = Inr (Func 5 0, Func 4 1)
   \<and> length (calls (snd (step (scalar_backend True True True) 1 u_hist (Func 2 1) [] None (-1) 1
          ''backward euler'' f_hist False True (1 / 10 ^ 10) world0))) = 3
   \<and> step (scalar_backend True True True) 1 u_hist (Func 2 1) [] None 1 (-1)
          ''backward euler'' f_hist False True (1 / 10 ^ 10) world0
     = (Inl AssertionError, world0)
   \<and> step (scalar_backend True True True) (-1) u_hist (Func 2 1) [] None 1 1
          ''backward euler'' f_hist False True (1 / 10 ^ 10) world0
     = (Inl AssertionError, world0)"
  by (simp add: step_def Message_def compute_tentative_velocity_def getitem_def u_hist_def
      f_hist_def new_Function_def world0_def tentative_residual_def assign_def
      solve_nonlinear_def scalar_backend_def error_on_nonconvergence_def sub_parameters_def
      newton_parameters_def compute_pressure_def truthy_def krylov_solve_def
      neumann_parameters_def PETScOptions_set_def compute_velocity_correction_def
      solve_linear_def linear_parameters_def Let_def)

text \<open>
  C3. Whenever the histories hold the entries it reads, the tentative-velocity solver
  hands the Newton solver the residual \<open>F1 = (ui - u[0]).v dx - c rhs\<close>, written out
  here integral by integral: the first integral is \<open>(ui - u[0]).v dx\<close>, and each of
  the five integrals of the weak right-hand side (force, skew-symmetric convection,
  stress, boundary pressure, boundary viscous term) enters negated and multiplied by
  \<open>c\<close>. For \<^verbatim>\<open>'forward euler'\<close> the right-hand side is taken at the old velocity
  with the old force and \<open>c = dt/rho\<close>; for \<^verbatim>\<open>'backward euler'\<close> at the unknown with
  the new force and \<open>c = dt/rho\<close>; for \<^verbatim>\<open>'crank-nicolson'\<close> both are present, each
  with \<open>c = (dt/rho) 0.5\<close>, that is their average. The Jacobian is the derivative of
  that residual at the unknown, and the weight returned with the unknown is 1 in all
  three cases.
\<close>

theorem tentative_velocity_residual:
  assumes "u 0 = Some u_old" and "f 0 = Some f_old" and "f 1 = Some f_new"
  shows
    "let ui = Func (next_id w) (function_space u_old);
         nrm = FacetNormal (arg_function_space v);
         k = Division (Constant dt) (Constant rho);
         half_k = Product (Division (Constant dt) (Constant rho)) (Constant (1/2));
         eps = (\<lambda>e. Product (Constant (1/2)) (Sum (Grad e) (Transposed (Grad e))));
         sig = (\<lambda>x. Sub (Product (Product (Constant 2) (Constant mu)) (eps (Coefficient x)))
                       (Product (Coefficient p_old) (Identity (function_space x))));
         dudt = Dx (Inner (Sub (Coefficient ui) (Coefficient u_old)) (Arg v));
         rhs = (\<lambda>c x fx.
           [Dx (Neg (Product c (Inner fx (Arg v)))),
            Dx (Neg (Product c (Neg
              (Product (Product (Constant rho) (Constant (1/2)))
                 (Sub (Inner (Product (Grad (Coefficient x)) (Coefficient x)) (Arg v))
                      (Inner (Product (Grad (Arg v)) (Coefficient x)) (Coefficient x))))))),
            Dx (Neg (Product c (Neg (Inner (sig x) (eps (Arg v)))))),
            Ds (Neg (Product c (Neg (Inner (Product (Coefficient p_old) nrm) (Arg v))))),
            Ds (Neg (Product c (Product (Constant mu)
              (Inner (Product (Transposed (Grad (Coefficient x))) nrm) (Arg v)))))]);
         outcome = (\<lambda>F conv x.
           (if conv then Inr (ui, 1) else Inl RuntimeError,
            w\<lparr>heap := (heap w)(next_id w := x), next_id := Suc (next_id w),
              calls := calls w @
                [NonlinearSolve F ui bcs (Derivative F ui)
                   (((heap w)(next_id w := b_zero B (function_space u_old))) (fid u_old))
                   (newton_parameters tol) conv]\<rparr>))
     in (\<exists>conv x. compute_tentative_velocity B u p_old f bcs ''forward euler'' rho mu dt v tol w
            = outcome (dudt # rhs k u_old f_old) conv x)
      \<and> (\<exists>conv x. compute_tentative_velocity B u p_old f bcs ''backward euler'' rho mu dt v tol w
            = outcome (dudt # rhs k ui f_new) conv x)
      \<and> (\<exists>conv x. compute_tentative_velocity B u p_old f bcs ''crank-nicolson'' rho mu dt v tol w
            = outcome (dudt # rhs half_k u_old f_old @ rhs half_k ui f_new) conv x)"
proof -
  let ?ui = "Func (next_id w) (function_space u_old)"
  note forms = form_sub_def form_add_def form_neg_def form_rmul_def mul_dx_def mul_ds_def
    rhs_weak_def sigma_def epsilon_def Let_def
  have fe: "\<exists>conv x. compute_tentative_velocity B u p_old f bcs ''forward euler'' rho mu dt v tol w =
      after_newton w ?ui 1
        (form_sub (mul_dx (Inner (Sub (Coefficient ?ui) (Coefficient u_old)) (Arg v)))
           (form_rmul (Division (Constant dt) (Constant rho))
              (rhs_weak u_old v f_old rho mu p_old))) bcs
        (((heap w)(next_id w := b_zero B (function_space u_old))) (fid u_old))
        (newton_parameters tol) conv x"
    by (rule compute_tentative_velocity_spec, rule assms(1), rule forward_euler_residual,
        rule assms(1), rule assms(2))
  have be: "\<exists>conv x. compute_tentative_velocity B u p_old f bcs ''backward euler'' rho mu dt v tol w =
      after_newton w ?ui 1
        (form_sub (mul_dx (Inner (Sub (Coefficient ?ui) (Coefficient u_old)) (Arg v)))
           (form_rmul (Division (Constant dt) (Constant rho))
              (rhs_weak ?ui v f_new rho mu p_old))) bcs
        (((heap w)(next_id w := b_zero B (function_space u_old))) (fid u_old))
        (newton_parameters tol) conv x"
    by (rule compute_tentative_velocity_spec, rule assms(1), rule backward_euler_residual,
        rule assms(1), rule assms(3))
  have cn: "\<exists>conv x. compute_tentative_velocity B u p_old f bcs ''crank-nicolson'' rho mu dt v tol w =
      after_newton w ?ui 1
        (form_sub (mul_dx (Inner (Sub (Coefficient ?ui) (Coefficient u_old)) (Arg v)))
           (form_rmul (Product (Division (Constant dt) (Constant rho)) (Constant (1/2)))
              (form_add (rhs_weak u_old v f_old rho mu p_old)
                 (rhs_weak ?ui v f_new rho mu p_old)))) bcs
        (((heap w)(next_id w := b_zero B (function_space u_old))) (fid u_old))
        (newton_parameters tol) conv x"
    by (rule compute_tentative_velocity_spec, rule assms(1), rule crank_nicolson_residual,
        rule assms(1), rule assms(2), rule assms(3))
  show ?thesis
    unfolding Let_def
    using fe be cn
    unfolding after_newton_def forms
    by (simp del: ex_simps)
qed

theorem tentative_velocity_residual_witness:
  "u_hist 0 = Some (Func 0 0) \<and> f_hist 0 = Some (Constant 0) \<and> f_hist 1 = Some (Constant 0)
   \<and> (let ui = Func (next_id world0) (function_space (Func 0 0));
         nrm = FacetNormal (arg_function_space (TestFunction 0));
         k = Division (Constant 1) (Constant 1);
         half_k = Product (Division (Constant 1) (Constant 1)) (Constant (1/2));
         eps = (\<lambda>e. Product (Constant (1/2)) (Sum (Grad e) (Transposed (Grad e))));
         sig = (\<lambda>x. Sub (Product (Product (Constant 2) (Constant 1)) (eps (Coefficient x)))
                       (Product (Coefficient (Func 2 1)) (Identity (function_space x))));
         dudt = Dx (Inner (Sub (Coefficient ui) (Coefficient (Func 0 0))) (Arg (TestFunction 0)));
         rhs = (\<lambda>c x fx.
           [Dx (Neg (Product c (Inner fx (Arg (TestFunction 0))))),
            Dx (Neg (Product c (Neg
              (Product (Product (Constant 1) (Constant (1/2)))
                 (Sub (Inner (Product (Grad (Coefficient x)) (Coefficient x)) (Arg (TestFunction 0)))
                      (Inner (Product (Grad (Arg (TestFunction 0))) (Coefficient x)) (Coefficient x))))))),
            Dx (Neg (Product c (Neg (Inner (sig x) (eps (Arg (TestFunction 0))))))),
            Ds (Neg (Product c (Neg (Inner (Product (Coefficient (Func 2 1)) nrm) (Arg (TestFunction 0)))))),
            Ds (Neg (Product c (Product (Constant 1)
              (Inner (Product (Transposed (Grad (Coefficient x))) nrm) (Arg (TestFunction 0))))))]);
         outcome = (\<lambda>F conv x.
           (if conv then Inr (ui, 1) else Inl RuntimeError,
            world0\<lparr>heap := (heap world0)(next_id world0 := x), next_id := Suc (next_id world0),
              calls := calls world0 @
                [NonlinearSolve F ui [] (Derivative F ui)
                   (((heap world0)(next_id world0 := b_zero (scalar_backend True True True) (function_space (Func 0 0)))) (fid (Func 0 0)))
                   (newton_parameters (1 / 10 ^ 10)) conv]\<rparr>))
     in (\<exists>conv x. compute_tentative_velocity (scalar_backend True True True) u_hist (Func 2 1) f_hist [] ''forward euler'' 1 1 1 (TestFunction 0) (1 / 10 ^ 10) world0
            = outcome (dudt # rhs k (Func 0 0) (Constant 0)) conv x)
      \<and> (\<exists>conv x. compute_tentative_velocity (scalar_backend True True True) u_hist (Func 2 1) f_hist [] ''backward euler'' 1 1 1 (TestFunction 0) (1 / 10 ^ 10) world0
            = outcome (dudt # rhs k ui (Constant 0)) conv x)
      \<and> (\<exists>conv x. compute_tentative_velocity (scalar_backend True True True) u_hist (Func 2 1) f_hist [] ''crank-nicolson'' 1 1 1 (TestFunction 0) (1 / 10 ^ 10) world0
            = outcome (dudt # rhs half_k (Func 0 0) (Constant 0) @ rhs half_k ui (Constant 0)) conv x))"
proof -
  have h1: "u_hist 0 = Some (Func 0 0)" by (simp add: u_hist_def)
  have h2: "f_hist 0 = Some (Constant 0)" by (simp add: f_hist_def)
  have h3: "f_hist 1 = Some (Constant 0)" by (simp add: f_hist_def)
  show ?thesis
    by (intro conjI h1 h2 h3
      tentative_velocity_residual [where u = u_hist and u_old = "Func 0 0" and f = f_hist
        and f_old = "Constant 0" and f_new = "Constant 0" and w = world0, OF h1 h2 h3])
qed

text \<open>
  C4. For each of the three methods the tentative-velocity solver makes exactly one
  solver call: the Newton solver, with the derivative of the residual with respect to
  the unknown as Jacobian, started from the coefficients of \<open>u[0]\<close>, with absolute
  tolerance \<open>tol\<close>, relative tolerance 0 and at most 10 iterations. If the solver
  reports no convergence, the call raises (\<open>RuntimeError\<close>); there is no second
  attempt.
\<close>

theorem tentative_velocity_newton:
  assumes "u 0 = Some u_old" and "fid u_old < next_id w"
    and "f 0 = Some f_old" and "f 1 = Some f_new"
    and "m = ''forward euler'' \<or> m = ''backward euler'' \<or> m = ''crank-nicolson''"
  shows
    "\<exists>F conv x.
       compute_tentative_velocity B u p_old f bcs m rho mu dt v tol w =
         (if conv then Inr (Func (next_id w) (function_space u_old), 1) else Inl RuntimeError,
          w\<lparr>heap := (heap w)(next_id w := x), next_id := Suc (next_id w),
            calls := calls w @
              [NonlinearSolve F (Func (next_id w) (function_space u_old)) bcs
                 (Derivative F (Func (next_id w) (function_space u_old)))
                 (heap w (fid u_old))
                 [(''nonlinear_solver'', PStr ''newton''),
                  (''newton_solver'', PDict
                     [(''maximum_iterations'', PInt 10),
                      (''report'', PBool True),
                      (''absolute_tolerance'', PReal tol),
                      (''relative_tolerance'', PReal 0),
                      (''error_on_nonconvergence'', PBool True)])]
                 conv]\<rparr>)"
proof -
  let ?ui = "Func (next_id w) (function_space u_old)"
  have "\<exists>F. tentative_residual ?ui u p_old f m rho mu dt v = Inr (1, F)"
    using assms(5)
      forward_euler_residual [where u = u and f = f, OF assms(1) assms(3)]
      backward_euler_residual [where u = u and f = f, OF assms(1) assms(4)]
      crank_nicolson_residual [where u = u and f = f, OF assms(1) assms(3) assms(4)]
    by (elim disjE) simp_all
  then obtain F where F: "tentative_residual ?ui u p_old f m rho mu dt v = Inr (1, F)" ..
  have g: "((heap w)(next_id w := b_zero B (function_space u_old))) (fid u_old) = heap w (fid u_old)"
    using assms(2) by simp
  from compute_tentative_velocity_spec [where u = u, OF assms(1) F, of B bcs tol]
  obtain conv x where "compute_tentative_velocity B u p_old f bcs m rho mu dt v tol w =
     after_newton w ?ui 1 F bcs (heap w (fid u_old)) (newton_parameters tol) conv x"
    unfolding g by (elim exE)
  then show ?thesis
    unfolding after_newton_def newton_parameters_def by auto
qed

theorem tentative_velocity_newton_witness:
  "u_hist 0 = Some (Func 0 0) \<and> fid (Func 0 0) < next_id world0
   \<and> f_hist 0 = Some (Constant 0) \<and> f_hist 1 = Some (Constant 0)
   \<and> (\<exists>F conv x.
       compute_tentative_velocity (scalar_backend False True True) u_hist (Func 2 1) f_hist [7]
           ''backward euler'' 1 1 1 (TestFunction 0) (1 / 10 ^ 6) world0 =
         (if conv then Inr (Func (next_id world0) (function_space (Func 0 0)), 1)
          else Inl RuntimeError,
          world0\<lparr>heap := (heap world0)(next_id world0 := x), next_id := Suc (next_id world0),
            calls := calls world0 @
              [NonlinearSolve F (Func (next_id world0) (function_space (Func 0 0))) [7]
                 (Derivative F (Func (next_id world0) (function_space (Func 0 0))))
                 (heap world0 (fid (Func 0 0)))
                 [(''nonlinear_solver'', PStr ''newton''),
                  (''newton_solver'', PDict
                     [(''maximum_iterations'', PInt 10),
                      (''report'', PBool True),
                      (''absolute_tolerance'', PReal (1 / 10 ^ 6)),
                      (''relative_tolerance'', PReal 0),
                      (''error_on_nonconvergence'', PBool True)])]
                 conv]\<rparr>))"
proof -
  have h1: "u_hist 0 = Some (Func 0 0)" by (simp add: u_hist_def)
  have h2: "fid (Func 0 0) < next_id world0" by (simp add: world0_def)
  have h3: "f_hist 0 = Some (Constant 0)" by (simp add: f_hist_def)
  have h4: "f_hist 1 = Some (Constant 0)" by (simp add: f_hist_def)
  have h5: "''backward euler'' = ''forward euler'' \<or> ''backward euler'' = ''backward euler''
      \<or> ''backward euler'' = ''crank-nicolson''" by simp
  show ?thesis
    by (intro conjI h1 h2 h3 h4
      tentative_velocity_newton [where u = u_hist and u_old = "Func 0 0" and f = f_hist
        and f_old = "Constant 0" and f_new = "Constant 0" and w = world0
        and m = "''backward euler''", OF h1 h2 h3 h4 h5])
qed

text \<open>
  C5. On valid input a step, called directly or through the step method of any of the
  three schemes, makes its solver calls in this order. First the Newton solve of the
  tentative velocity, whose absolute tolerance is \<open>1.0e-10\<close> whatever \<open>tol\<close> the
  caller gave. Then, exactly when Newton converged, the pressure solve, variational
  or Krylov, whose relative tolerance is \<open>tol\<close>. Then, exactly when the pressure
  solve converged, the velocity-correction solve, whose relative tolerance is \<open>tol\<close>.
  The step returns the new velocity and pressure exactly when all three converged.
  \<^verbatim>\<open>IPCS.step\<close> and \<^verbatim>\<open>Rotational.step\<close> run the step with their own time-step method,
  without and with rotational form; \<^verbatim>\<open>Chorin.step\<close> runs it with
  \<^verbatim>\<open>'backward euler'\<close> on a fresh zero pressure in place of \<open>p0\<close>. So for
  \<open>tol \<noteq> 1.0e-10\<close> the Newton parameters are not those that \<open>tol\<close> would give.
\<close>

theorem step_tolerances:
  fixes B :: "'a backend"
  assumes "0 < dt" and "0 < mu" and "u 0 = Some u_old"
    and "f 0 = Some f_old" and "f 1 = Some f_new"
    and "m = ''forward euler'' \<or> m = ''backward euler'' \<or> m = ''crank-nicolson''"
  shows
    "let V = function_space u_old;
         P = function_space p_old;
         newton = (\<lambda>t. [(''nonlinear_solver'', PStr ''newton''),
                        (''newton_solver'', PDict
                           [(''maximum_iterations'', PInt 10),
                            (''report'', PBool True),
                            (''absolute_tolerance'', PReal t),
                            (''relative_tolerance'', PReal 0),
                            (''error_on_nonconvergence'', PBool True)])]);
         linear = (\<lambda>t. [(''linear_solver'', PStr ''iterative''),
                        (''symmetric'', PBool True),
                        (''preconditioner'', PStr ''hypre_amg''),
                        (''krylov_solver'', PDict
                           [(''relative_tolerance'', PReal t),
                            (''absolute_tolerance'', PReal 0),
                            (''maximum_iterations'', PInt 100),
                            (''monitor_convergence'', PBool verbose),
                            (''error_on_nonconvergence'', PBool True)])]);
         krylov = (\<lambda>t. [(''absolute_tolerance'', PReal 0),
                        (''relative_tolerance'', PReal t),
                        (''maximum_iterations'', PInt 1000),
                        (''monitor_convergence'', PBool verbose),
                        (''error_on_nonconvergence'', PBool True)]);
         trace = (\<lambda>r mth p_in rt n h.
           \<exists>F c1 x1 c2 c3.
             tentative_residual (Func n V) u p_in f mth rho mu dt (TestFunction V) = Inr (1, F)
           \<and> fst r = (if c1 \<and> c2 \<and> c3 then Inr (Func (Suc (Suc n)) V, Func (Suc n) P)
                      else Inl RuntimeError)
           \<and> calls (snd r) = calls w @
               NonlinearSolve F (Func n V) u_bcs (Derivative F (Func n V))
                 ((h(n := b_zero B V)) (fid u_old)) (newton (1 / 10 ^ 10)) c1
               # (if c1 then
                    (if truthy p_bcs
                     then LinearSolve (pressure_a2 P)
                            (pressure_L2 P p_in 1 rho dt mu (Div (Coefficient (Func n V))) rt)
                            (Func (Suc n) P) (case p_bcs of Some bs \<Rightarrow> bs | None \<Rightarrow> [])
                            (linear tol) c2
                     else KrylovSolve ''cg'' ''hypre_amg''
                            (AList.update ''pc_hypre_boomeramg_relax_type_coarse'' ''jacobi''
                               (petsc_options w))
                            (assemble_matrix B (h(n := x1, Suc n := b_zero B P)) (pressure_a2 P))
                            (assemble_vector B (h(n := x1, Suc n := b_zero B P))
                               (pressure_L2 P p_in 1 rho dt mu (Div (Coefficient (Func n V))) rt))
                            (Suc n) (krylov tol) c2)
                    # (if c2 then
                         [LinearSolve
                            (mul_dx (Inner (Arg (TrialFunction V)) (Arg (TestFunction V))))
                            (form_sub
                               (mul_dx (Inner (Coefficient (Func n V)) (Arg (TestFunction V))))
                               (mul_dx (Product (Division (Constant dt) (Constant rho))
                                  (Inner (Grad (correction_phi (Func n V) (Func (Suc n) P)
                                                  p_in mu rt))
                                     (Arg (TestFunction V))))))
                            (Func (Suc (Suc n)) V) u_bcs (linear tol) c3]
                       else [])
                  else []))
     in trace (step B dt u p_old u_bcs p_bcs rho mu m f rot verbose tol w)
          m p_old rot (next_id w) (heap w)
      \<and> trace (IPCS_step B (IPCS m) dt u p_old u_bcs p_bcs rho mu f verbose tol w)
          m p_old False (next_id w) (heap w)
      \<and> trace (Rotational_step B (Rotational m) dt u p_old u_bcs p_bcs rho mu f verbose tol w)
          m p_old True (next_id w) (heap w)
      \<and> trace (Chorin_step B dt u p_old u_bcs p_bcs rho mu f verbose tol w)
          ''backward euler'' (Func (next_id w) P) False (Suc (next_id w))
          ((heap w)(next_id w := b_zero B P))
      \<and> (tol \<noteq> 1 / 10 ^ 10 \<longrightarrow> newton tol \<noteq> newton (1 / 10 ^ 10))"
proof -
  note params = newton_parameters_def linear_parameters_def neumann_parameters_def
  note valid = step_trace_valid [where u = u and f = f and B = B and u_bcs = u_bcs
      and p_bcs = p_bcs and rho = rho and verbose = verbose and tol = tol,
      OF assms(1-5), unfolded params]
  have be: "''backward euler'' = ''forward euler'' \<or> ''backward euler'' = ''backward euler''
      \<or> ''backward euler'' = ''crank-nicolson''" by simp
  have fresh: "next_id (w\<lparr>heap := hp, next_id := k\<rparr>) = k"
    "heap (w\<lparr>heap := hp, next_id := k\<rparr>) = hp"
    "calls (w\<lparr>heap := hp, next_id := k\<rparr>) = calls w"
    "petsc_options (w\<lparr>heap := hp, next_id := k\<rparr>) = petsc_options w" for hp k
    by simp_all
  show ?thesis
    unfolding Let_def
    apply (intro conjI)
    subgoal by (rule valid [OF assms(6)])
    subgoal unfolding IPCS_step_def IPCS.sel by (rule valid [OF assms(6)])
    subgoal unfolding Rotational_step_def Rotational.sel by (rule valid [OF assms(6)])
    subgoal
      using step_trace_valid [where u = u and f = f and B = B and u_bcs = u_bcs
          and p_bcs = p_bcs and rho = rho and verbose = verbose and tol = tol
          and p_old = "Func (next_id w) (function_space p_old)" and rot = False
          and w = "w\<lparr>heap := (heap w)(next_id w := b_zero B (function_space p_old)),
                      next_id := Suc (next_id w)\<rparr>",
          OF assms(1-5) be, unfolded params]
      by (simp only: Chorin_step_def new_Function_def Let_def fst_conv snd_conv fresh
            func.sel)
    subgoal by simp
    done
qed

theorem step_tolerances_witness:
  "(0::real) < 1 \<and> (0::real) < 2 \<and> u_hist 0 = Some (Func 0 0)
   \<and> f_hist 0 = Some (Constant 0) \<and> f_hist 1 = Some (Constant 0)
   \<and> (1::real) / 10 ^ 3 \<noteq> 1 / 10 ^ 10
   \<and> (let V = function_space (Func 0 0);
         P = function_space (Func 2 1);
         newton = (\<lambda>t. [(''nonlinear_solver'', PStr ''newton''),
                        (''newton_solver'', PDict
                           [(''maximum_iterations'', PInt 10),
                            (''report'', PBool True),
                            (''absolute_tolerance'', PReal t),
                            (''relative_tolerance'', PReal 0),
                            (''error_on_nonconvergence'', PBool True)])]);
         linear = (\<lambda>t. [(''linear_solver'', PStr ''iterative''),
                        (''symmetric'', PBool True),
                        (''preconditioner'', PStr ''hypre_amg''),
                        (''krylov_solver'', PDict
                           [(''relative_tolerance'', PReal t),
                            (''absolute_tolerance'', PReal 0),
                            (''maximum_iterations'', PInt 100),
                            (''monitor_convergence'', PBool True),
                            (''error_on_nonconvergence'', PBool True)])]);
         krylov = (\<lambda>t. [(''absolute_tolerance'', PReal 0),
                        (''relative_tolerance'', PReal t),
                        (''maximum_iterations'', PInt 1000),
                        (''monitor_convergence'', PBool True),
                        (''error_on_nonconvergence'', PBool True)]);
         trace = (\<lambda>r mth p_in rt n h.
           \<exists>F c1 x1 c2 c3.
             tentative_residual (Func n V) u_hist p_in f_hist mth 1 2 1 (TestFunction V) = Inr (1, F)
           \<and> fst r = (if c1 \<and> c2 \<and> c3 then Inr (Func (Suc (Suc n)) V, Func (Suc n) P)
                      else Inl RuntimeError)
           \<and> calls (snd r) = calls world0 @
               NonlinearSolve F (Func n V) [] (Derivative F (Func n V))
                 ((h(n := b_zero (scalar_backend True True True) V)) (fid (Func 0 0))) (newton (1 / 10 ^ 10)) c1
               # (if c1 then
                    (if truthy (None :: bc list option)
                     then LinearSolve (pressure_a2 P)
                            (pressure_L2 P p_in 1 1 1 2 (Div (Coefficient (Func n V))) rt)
                            (Func (Suc n) P) (case (None :: bc list option) of Some bs \<Rightarrow> bs | None \<Rightarrow> [])
                            (linear ((1::real) / 10 ^ 3)) c2
                     else KrylovSolve ''cg'' ''hypre_amg''
                            (AList.update ''pc_hypre_boomeramg_relax_type_coarse'' ''jacobi''
                               (petsc_options world0))
                            (assemble_matrix (scalar_backend True True True) (h(n := x1, Suc n := b_zero (scalar_backend True True True) P)) (pressure_a2 P))
                            (assemble_vector (scalar_backend True True True) (h(n := x1, Suc n := b_zero (scalar_backend True True True) P))
                               (pressure_L2 P p_in 1 1 1 2 (Div (Coefficient (Func n V))) rt))
                            (Suc n) (krylov ((1::real) / 10 ^ 3)) c2)
                    # (if c2 then
                         [LinearSolve
                            (mul_dx (Inner (Arg (TrialFunction V)) (Arg (TestFunction V))))
                            (form_sub
                               (mul_dx (Inner (Coefficient (Func n V)) (Arg (TestFunction V))))
                               (mul_dx (Product (Division (Constant 1) (Constant 1))
                                  (Inner (Grad (correction_phi (Func n V) (Func (Suc n) P)
                                                  p_in 2 rt))
                                     (Arg (TestFunction V))))))
                            (Func (Suc (Suc n)) V) [] (linear ((1::real) / 10 ^ 3)) c3]
                       else [])
                  else []))
     in trace (step (scalar_backend True True True) 1 u_hist (Func 2 1) [] (None :: bc list option) 1 2 ''crank-nicolson'' f_hist False True ((1::real) / 10 ^ 3) world0)
          ''crank-nicolson'' (Func 2 1) False (next_id world0) (heap world0)
      \<and> trace (IPCS_step (scalar_backend True True True) (IPCS ''crank-nicolson'') 1 u_hist (Func 2 1) [] (None :: bc list option) 1 2 f_hist True ((1::real) / 10 ^ 3) world0)
          ''crank-nicolson'' (Func 2 1) False (next_id world0) (heap world0)
      \<and> trace (Rotational_step (scalar_backend True True True) (Rotational ''crank-nicolson'') 1 u_hist (Func 2 1) [] (None :: bc list option) 1 2 f_hist True ((1::real) / 10 ^ 3) world0)
          ''crank-nicolson'' (Func 2 1) True (next_id world0) (heap world0)
      \<and> trace (Chorin_step (scalar_backend True True True) 1 u_hist (Func 2 1) [] (None :: bc list option) 1 2 f_hist True ((1::real) / 10 ^ 3) world0)
          ''backward euler'' (Func (next_id world0) P) False (Suc (next_id world0))
          ((heap world0)(next_id world0 := b_zero (scalar_backend True True True) P))
      \<and> (((1::real) / 10 ^ 3) \<noteq> 1 / 10 ^ 10 \<longrightarrow> newton ((1::real) / 10 ^ 3) \<noteq> newton (1 / 10 ^ 10)))"
proof -
  have h1: "(0::real) < 1" by simp
  have h2: "(0::real) < 2" by simp
  have h3: "u_hist 0 = Some (Func 0 0)" by (simp add: u_hist_def)
  have h4: "f_hist 0 = Some (Constant 0)" by (simp add: f_hist_def)
  have h5: "f_hist 1 = Some (Constant 0)" by (simp add: f_hist_def)
  have h6: "''crank-nicolson'' = ''forward euler'' \<or> ''crank-nicolson'' = ''backward euler''
      \<or> ''crank-nicolson'' = ''crank-nicolson''" by simp
  have h7: "(1::real) / 10 ^ 3 \<noteq> 1 / 10 ^ 10" by simp
  show ?thesis
    by (intro conjI h1 h2 h3 h4 h5 h7
      step_tolerances [where u = u_hist and u_old = "Func 0 0" and f = f_hist
        and f_old = "Constant 0" and f_new = "Constant 0" and w = world0
        and m = "''crank-nicolson''" and dt = 1 and mu = 2, OF h1 h2 h3 h4 h5 h6])
qed




text \<open>
  C6. Without pressure boundary conditions (\<^verbatim>\<open>p_bcs\<close> is \<^verbatim>\<open>None\<close> or empty) the
  right-hand side given to the conjugate-gradient solver is the assembled linear form
  itself, the option \<^verbatim>\<open>pc_hypre_boomeramg_relax_type_coarse\<close> is \<^verbatim>\<open>jacobi\<close>, and
  the iteration cap is 1000; with boundary conditions the cap is 100. In both paths the
  absolute tolerance is 0, the relative tolerance is \<open>tol\<close>, and a solver that reports
  no convergence makes the call raise.
\<close>

theorem pressure_solver_paths:
  "let P = function_space p_old;
       p1 = Func (next_id w) P;
       h1 = (heap w)(next_id w := b_zero B P);
       a2 = pressure_a2 P;
       L2 = pressure_L2 P p_old alpha rho dt mu d rot;
       opts = AList.update ''pc_hypre_boomeramg_relax_type_coarse'' ''jacobi'' (petsc_options w)
   in \<exists>conv x.
        compute_pressure B (Some p_old) alpha rho dt mu d p_bcs pfs rot tol verbose w =
          (if conv then Inr p1 else Inl RuntimeError,
           if truthy p_bcs then
             w\<lparr>heap := (heap w)(next_id w := x), next_id := Suc (next_id w),
               calls := calls w @
                 [LinearSolve a2 L2 p1 (case p_bcs of Some bs \<Rightarrow> bs | None \<Rightarrow> [])
                    [(''linear_solver'', PStr ''iterative''),
                     (''symmetric'', PBool True),
                     (''preconditioner'', PStr ''hypre_amg''),
                     (''krylov_solver'', PDict
                        [(''relative_tolerance'', PReal tol),
                         (''absolute_tolerance'', PReal 0),
                         (''maximum_iterations'', PInt 100),
                         (''monitor_convergence'', PBool verbose),
                         (''error_on_nonconvergence'', PBool True)])]
                    conv]\<rparr>
           else
             w\<lparr>heap := (heap w)(next_id w := x), next_id := Suc (next_id w),
               petsc_options := opts,
               calls := calls w @
                 [KrylovSolve ''cg'' ''hypre_amg'' opts
                    (assemble_matrix B h1 a2) (assemble_vector B h1 L2) (next_id w)
                    [(''absolute_tolerance'', PReal 0),
                     (''relative_tolerance'', PReal tol),
                     (''maximum_iterations'', PInt 1000),
                     (''monitor_convergence'', PBool verbose),
                     (''error_on_nonconvergence'', PBool True)]
                    conv]\<rparr>)
      \<and> map_of opts ''pc_hypre_boomeramg_relax_type_coarse'' = Some ''jacobi''"
proof (cases "truthy p_bcs")
  case True
  then obtain b0 bs where b: "p_bcs = Some (b0 # bs)"
    by (auto simp add: truthy_def split: option.splits list.splits)
  from compute_pressure_dirichlet [OF this, of B p_old alpha rho dt mu d pfs rot tol verbose w]
  obtain conv x where "compute_pressure B (Some p_old) alpha rho dt mu d p_bcs pfs rot tol verbose w =
     after_linear w (Func (next_id w) (function_space p_old))
       (pressure_a2 (function_space p_old))
       (pressure_L2 (function_space p_old) p_old alpha rho dt mu d rot)
       (b0 # bs) (linear_parameters tol verbose) conv x" by (elim exE)
  then show ?thesis
    using True b
    unfolding Let_def after_linear_def linear_parameters_def
    by (auto simp add: update_conv')
next
  case False
  from compute_pressure_neumann [OF this, of B p_old alpha rho dt mu d pfs rot tol verbose w]
  obtain conv x where "compute_pressure B (Some p_old) alpha rho dt mu d p_bcs pfs rot tol verbose w =
     after_krylov w (Func (next_id w) (function_space p_old)) ''cg'' ''hypre_amg''
       (AList.update ''pc_hypre_boomeramg_relax_type_coarse'' ''jacobi'' (petsc_options w))
       (assemble_matrix B ((heap w)(next_id w := b_zero B (function_space p_old)))
          (pressure_a2 (function_space p_old)))
       (assemble_vector B ((heap w)(next_id w := b_zero B (function_space p_old)))
          (pressure_L2 (function_space p_old) p_old alpha rho dt mu d rot))
       (neumann_parameters tol verbose) conv x" by (elim exE)
  then show ?thesis
    using False
    unfolding Let_def after_krylov_def neumann_parameters_def
    by (auto simp add: update_conv')
qed



text \<open>
  C8. \<^verbatim>\<open>Chorin.step\<close> runs the step on a new zero pressure field in the space of the
  pressure it was given, with the method \<^verbatim>\<open>'backward euler'\<close>; the given pressure
  matters only through its space. The declared orders are 1 and 0.5 for Chorin, 2 and 1
  for IPCS, 2 and 1.5 for Rotational.
\<close>

theorem Chorin_ignores_pressure:
  "Chorin_step B dt u p_old u_bcs p_bcs rho mu f verbose tol w =
     step B dt u (Func (next_id w) (function_space p_old)) u_bcs p_bcs rho mu
       ''backward euler'' f False verbose tol
       (w\<lparr>heap := (heap w)(next_id w := b_zero B (function_space p_old)),
          next_id := Suc (next_id w)\<rparr>)
   \<and> (function_space p_other = function_space p_old \<longrightarrow>
        Chorin_step B dt u p_other u_bcs p_bcs rho mu f verbose tol w =
        Chorin_step B dt u p_old u_bcs p_bcs rho mu f verbose tol w)
   \<and> map_of Chorin_order ''velocity'' = Some 1
   \<and> map_of Chorin_order ''pressure'' = Some (1/2)
   \<and> map_of IPCS_order ''velocity'' = Some 2
   \<and> map_of IPCS_order ''pressure'' = Some 1
   \<and> map_of Rotational_order ''velocity'' = Some 2
   \<and> map_of Rotational_order ''pressure'' = Some (3/2)"
  by (simp add: Chorin_step_def new_Function_def Let_def Chorin_order_def IPCS_order_def
      Rotational_order_def)

theorem Chorin_ignores_pressure_witness:
  "function_space (Func 1 1) = function_space (Func 2 1)
   \<and> Chorin_step (scalar_backend True True True) 1 u_hist (Func 1 1) [] None 1 1 f_hist
        True (1 / 10 ^ 6) world0 =
     Chorin_step (scalar_backend True True True) 1 u_hist (Func 2 1) [] None 1 1 f_hist
        True (1 / 10 ^ 6) world0"
proof -
  have h: "function_space (Func 1 1) = function_space (Func 2 1)" by simp
  from Chorin_ignores_pressure [where p_other = "Func 1 1" and p_old = "Func 2 1"]
  have "Chorin_step (scalar_backend True True True) 1 u_hist (Func 1 1) [] None 1 1 f_hist
        True (1 / 10 ^ 6) world0 =
     Chorin_step (scalar_backend True True True) 1 u_hist (Func 2 1) [] None 1 1 f_hist
        True (1 / 10 ^ 6) world0"
    using h by blast
  with h show ?thesis by blast
qed

text \<open>
  C9. The spec: with \<open>mu = 0\<close> a step returns the same pressure with and without
  rotational form, and with \<open>mu \<noteq> 0\<close> and a nonzero divergence of the tentative
  velocity the pressure differs. On the code, a step with \<open>mu = 0\<close> fails the assertion
  \<open>mu > 0\<close> in both modes and returns no pressure; and with \<open>mu = 1\<close> and the tentative
  velocity \<open>x\<close>, whose divergence is the constant 1, the two modes return the same
  pressure, since the gradient of the divergence vanishes.
\<close>

theorem rotational_claim_counterexample:
  "step (scalar_backend True True True) 1 u_hist (Func 2 1) [] None 1 0
        ''backward euler'' f_hist True True (1 / 10 ^ 10) world0
     = (Inl AssertionError, world0)
   \<and> step (scalar_backend True True True) 1 u_hist (Func 2 1) [] None 1 0
        ''backward euler'' f_hist False True (1 / 10 ^ 10) world0
     = (Inl AssertionError, world0)
   \<and> fst (step affine_backend 1 u_hist (Func 2 1) [] None 1 1
        ''backward euler'' f_hist True True (1 / 10 ^ 10) world1)
     = Inr (Func 5 0, Func 4 1)
   \<and> fst (step affine_backend 1 u_hist (Func 2 1) [] None 1 1
        ''backward euler'' f_hist False True (1 / 10 ^ 10) world1)
     = Inr (Func 5 0, Func 4 1)
   \<and> eval affine_backend
        (heap (snd (step affine_backend 1 u_hist (Func 2 1) [] None 1 1
           ''backward euler'' f_hist True True (1 / 10 ^ 10) world1)))
        (0, 0) None (Div (Coefficient (Func 3 0)))
     = (1, 0)
   \<and> heap (snd (step affine_backend 1 u_hist (Func 2 1) [] None 1 1
        ''backward euler'' f_hist True True (1 / 10 ^ 10) world1)) 4
     = (- 1, - 1 / 2)
   \<and> heap (snd (step affine_backend 1 u_hist (Func 2 1) [] None 1 1
        ''backward euler'' f_hist False True (1 / 10 ^ 10) world1)) 4
     = (- 1, - 1 / 2)"
proof (intro conjI)
  show "step (scalar_backend True True True) 1 u_hist (Func 2 1) [] None 1 0
        ''backward euler'' f_hist True True (1 / 10 ^ 10) world0
     = (Inl AssertionError, world0)"
    by (simp add: step_def)
  show "step (scalar_backend True True True) 1 u_hist (Func 2 1) [] None 1 0
        ''backward euler'' f_hist False True (1 / 10 ^ 10) world0
     = (Inl AssertionError, world0)"
    by (simp add: step_def)
  show "fst (step affine_backend 1 u_hist (Func 2 1) [] None 1 1
        ''backward euler'' f_hist True True (1 / 10 ^ 10) world1)
     = Inr (Func 5 0, Func 4 1)"
    by (simp add: run_simps affine_backend_def world1_def)
  show "fst (step affine_backend 1 u_hist (Func 2 1) [] None 1 1
        ''backward euler'' f_hist False True (1 / 10 ^ 10) world1)
     = Inr (Func 5 0, Func 4 1)"
    by (simp add: run_simps affine_backend_def world1_def)
  show "eval affine_backend
        (heap (snd (step affine_backend 1 u_hist (Func 2 1) [] None 1 1
           ''backward euler'' f_hist True True (1 / 10 ^ 10) world1)))
        (0, 0) None (Div (Coefficient (Func 3 0)))
     = (1, 0)"
    by (simp add: run_simps affine_backend_def world1_def)
  show "heap (snd (step affine_backend 1 u_hist (Func 2 1) [] None 1 1
        ''backward euler'' f_hist True True (1 / 10 ^ 10) world1)) 4
     = (- 1, - 1 / 2)"
    by (simp add: run_simps affine_backend_def world1_def assemble_vector_def
        assemble_matrix_def fval_def pressure_L2_def pressure_a2_def mul_dx_def form_add_def
        form_sub_def form_neg_def)
  show "heap (snd (step affine_backend 1 u_hist (Func 2 1) [] None 1 1
        ''backward euler'' f_hist False True (1 / 10 ^ 10) world1)) 4
     = (- 1, - 1 / 2)"
    by (simp add: run_simps affine_backend_def world1_def assemble_vector_def
        assemble_matrix_def fval_def pressure_L2_def pressure_a2_def mul_dx_def form_add_def
        form_sub_def form_neg_def)
qed

text \<open>
  C9, as the code has it. A step with \<open>mu = 0\<close> fails the precondition in both modes.
  The pressure solve itself, given \<open>mu = 0\<close> (where zero-scaled integrands integrate to
  zero), or given any \<open>mu\<close> when the rotational term vanishes for every test function,
  returns the same result and the same field values in both modes. In general the two
  right-hand sides differ by exactly the rotational term
  \<open>- mu \<integral> grad(div u*) . grad t dx\<close>, so that exact solutions of the two systems differ
  as soon as this term is nonzero for some test function.
\<close>

theorem rotational_correction_effect:
  "step B dt u p_old u_bcs p_bcs rho 0 m f rot verbose tol w = (Inl AssertionError, w)
   \<and> (zero_scaling B \<longrightarrow>
        fst (compute_pressure B (Some p_old) alpha rho dt 0 d p_bcs pfs True tol verbose w) =
        fst (compute_pressure B (Some p_old) alpha rho dt 0 d p_bcs pfs False tol verbose w)
      \<and> heap (snd (compute_pressure B (Some p_old) alpha rho dt 0 d p_bcs pfs True tol verbose w)) =
        heap (snd (compute_pressure B (Some p_old) alpha rho dt 0 d p_bcs pfs False tol verbose w)))
   \<and> ((\<forall>s. rotational_term B ((heap w)(next_id w := b_zero B (function_space p_old))) mu dc s = 0)
        \<longrightarrow>
        fst (compute_pressure B (Some p_old) alpha rho dt mu dc p_bcs pfs True tol verbose w) =
        fst (compute_pressure B (Some p_old) alpha rho dt mu dc p_bcs pfs False tol verbose w)
      \<and> heap (snd (compute_pressure B (Some p_old) alpha rho dt mu dc p_bcs pfs True tol verbose w)) =
        heap (snd (compute_pressure B (Some p_old) alpha rho dt mu dc p_bcs pfs False tol verbose w)))
   \<and> assemble_vector B h (pressure_L2 P p_old alpha rho dt mu d True) t =
       assemble_vector B h (pressure_L2 P p_old alpha rho dt mu d False) t
       + rotational_term B h mu d t
   \<and> ((\<forall>s. assemble_matrix B h (pressure_a2 P) y s =
             assemble_vector B h (pressure_L2 P p_old alpha rho dt mu d True) s)
      \<and> (\<forall>s. assemble_matrix B h (pressure_a2 P) z s =
             assemble_vector B h (pressure_L2 P p_old alpha rho dt mu d False) s)
      \<and> rotational_term B h mu d t \<noteq> 0
      \<longrightarrow> y \<noteq> z)"
proof (intro conjI impI)
  show "step B dt u p_old u_bcs p_bcs rho 0 m f rot verbose tol w = (Inl AssertionError, w)"
    by (rule step_asserts) simp
next
  assume "zero_scaling B"
  from compute_pressure_mu_zero [OF this, of p_old alpha rho dt d p_bcs pfs tol verbose w]
  show "fst (compute_pressure B (Some p_old) alpha rho dt 0 d p_bcs pfs True tol verbose w) =
        fst (compute_pressure B (Some p_old) alpha rho dt 0 d p_bcs pfs False tol verbose w)"
    and "heap (snd (compute_pressure B (Some p_old) alpha rho dt 0 d p_bcs pfs True tol verbose w)) =
        heap (snd (compute_pressure B (Some p_old) alpha rho dt 0 d p_bcs pfs False tol verbose w))"
    by simp_all
next
  assume "\<forall>s. rotational_term B ((heap w)(next_id w := b_zero B (function_space p_old))) mu dc s = 0"
  from compute_pressure_rotational_vanishes [OF this, of alpha rho dt p_bcs pfs tol verbose]
  show "fst (compute_pressure B (Some p_old) alpha rho dt mu dc p_bcs pfs True tol verbose w) =
        fst (compute_pressure B (Some p_old) alpha rho dt mu dc p_bcs pfs False tol verbose w)"
    and "heap (snd (compute_pressure B (Some p_old) alpha rho dt mu dc p_bcs pfs True tol verbose w)) =
        heap (snd (compute_pressure B (Some p_old) alpha rho dt mu dc p_bcs pfs False tol verbose w))"
    by simp_all
next
  show "assemble_vector B h (pressure_L2 P p_old alpha rho dt mu d True) t =
       assemble_vector B h (pressure_L2 P p_old alpha rho dt mu d False) t
       + rotational_term B h mu d t"
    by (rule pressure_L2_rotational)
next
  assume a: "(\<forall>s. assemble_matrix B h (pressure_a2 P) y s =
             assemble_vector B h (pressure_L2 P p_old alpha rho dt mu d True) s)
      \<and> (\<forall>s. assemble_matrix B h (pressure_a2 P) z s =
             assemble_vector B h (pressure_L2 P p_old alpha rho dt mu d False) s)
      \<and> rotational_term B h mu d t \<noteq> 0"
  show "y \<noteq> z"
  proof
    assume "y = z"
    with a have "assemble_vector B h (pressure_L2 P p_old alpha rho dt mu d True) t =
        assemble_vector B h (pressure_L2 P p_old alpha rho dt mu d False) t"
      by metis
    with a show False by (simp add: pressure_L2_rotational)
  qed
qed

theorem rotational_correction_effect_witness:
  "zero_scaling (scalar_backend True True True)
   \<and> (\<forall>s. rotational_term (scalar_backend True True True)
          ((heap world0)(next_id world0 := b_zero (scalar_backend True True True)
             (function_space (Func 2 1)))) 1 (Constant 0) s = 0)
   \<and> (\<forall>s. assemble_matrix (scalar_backend True True True) (heap world0) (pressure_a2 1) 1 s =
          assemble_vector (scalar_backend True True True) (heap world0)
            (pressure_L2 1 (Func 2 1) 1 1 1 1 (Constant 2) True) s)
   \<and> (\<forall>s. assemble_matrix (scalar_backend True True True) (heap world0) (pressure_a2 1) 3 s =
          assemble_vector (scalar_backend True True True) (heap world0)
            (pressure_L2 1 (Func 2 1) 1 1 1 1 (Constant 2) False) s)
   \<and> rotational_term (scalar_backend True True True) (heap world0) 1 (Constant 2) 1 \<noteq> 0
   \<and> heap (snd (compute_pressure (scalar_backend True True True) (Some (Func 2 1)) 1 1 1 0
        (Constant 2) None None True (1 / 10 ^ 10) True world0)) =
     heap (snd (compute_pressure (scalar_backend True True True) (Some (Func 2 1)) 1 1 1 0
        (Constant 2) None None False (1 / 10 ^ 10) True world0))
   \<and> heap (snd (compute_pressure (scalar_backend True True True) (Some (Func 2 1)) 1 1 1 1
        (Constant 0) None None True (1 / 10 ^ 10) True world0)) =
     heap (snd (compute_pressure (scalar_backend True True True) (Some (Func 2 1)) 1 1 1 1
        (Constant 0) None None False (1 / 10 ^ 10) True world0))
   \<and> (1::real) \<noteq> 3"
proof -
  let ?B = "scalar_backend True True True"
  have h1: "zero_scaling ?B"
    by (simp add: zero_scaling_def scalar_backend_def)
  have h2: "\<forall>s. rotational_term ?B
          ((heap world0)(next_id world0 := b_zero ?B (function_space (Func 2 1)))) 1 (Constant 0) s = 0"
    by (simp add: rotational_term_def scalar_backend_def)
  have h3: "\<forall>s. assemble_matrix ?B (heap world0) (pressure_a2 1) 1 s =
          assemble_vector ?B (heap world0) (pressure_L2 1 (Func 2 1) 1 1 1 1 (Constant 2) True) s"
    by (simp add: assemble_matrix_def assemble_vector_def fval_def scalar_backend_def world0_def
        pressure_a2_def pressure_L2_def mul_dx_def form_add_def form_sub_def form_neg_def Let_def)
  have h4: "\<forall>s. assemble_matrix ?B (heap world0) (pressure_a2 1) 3 s =
          assemble_vector ?B (heap world0) (pressure_L2 1 (Func 2 1) 1 1 1 1 (Constant 2) False) s"
    by (simp add: assemble_matrix_def assemble_vector_def fval_def scalar_backend_def world0_def
        pressure_a2_def pressure_L2_def mul_dx_def form_add_def form_sub_def form_neg_def Let_def)
  have h5: "rotational_term ?B (heap world0) 1 (Constant 2) 1 \<noteq> 0"
    by (simp add: rotational_term_def scalar_backend_def)
  note inst = rotational_correction_effect [where B = ?B and w = world0 and p_old = "Func 2 1"
      and mu = 1 and dc = "Constant 0" and d = "Constant 2" and h = "heap world0" and P = 1
      and alpha = 1 and rho = 1 and dt = 1 and y = 1 and z = 3 and t = 1
      and p_bcs = None and pfs = None and tol = "1 / 10 ^ 10" and verbose = True]
  have c1: "heap (snd (compute_pressure ?B (Some (Func 2 1)) 1 1 1 0
        (Constant 2) None None True (1 / 10 ^ 10) True world0)) =
     heap (snd (compute_pressure ?B (Some (Func 2 1)) 1 1 1 0
        (Constant 2) None None False (1 / 10 ^ 10) True world0))"
    using inst h1 by blast
  have c2: "heap (snd (compute_pressure ?B (Some (Func 2 1)) 1 1 1 1
        (Constant 0) None None True (1 / 10 ^ 10) True world0)) =
     heap (snd (compute_pressure ?B (Some (Func 2 1)) 1 1 1 1
        (Constant 0) None None False (1 / 10 ^ 10) True world0))"
    using inst h2 by blast
  have c3: "(1::real) \<noteq> 3"
    using inst h3 h4 h5 by blast
  show ?thesis
    by (intro conjI h1 h2 h3 h4 h5 c1 c2 c3)
qed

text \<open>
  C10. A step (and the step of each scheme) leaves every field allocated before the call
  unchanged, and the velocity and the pressure it returns are distinct fields allocated
  during the call. Nothing but the given fields is read: run in two worlds that agree on
  \<open>u[0]\<close>, on the pressure and on the fields of the forces, a step returns the same
  result, with the same coefficients in the returned fields.
\<close>

theorem step_leaves_caller_fields:
  "leaves_fields w (step B dt u p_old u_bcs p_bcs rho mu m f rot verbose tol w)
   \<and> leaves_fields w (Chorin_step B dt u p_old u_bcs p_bcs rho mu f verbose tol w)
   \<and> leaves_fields w (IPCS_step B ipcs dt u p_old u_bcs p_bcs rho mu f verbose tol w)
   \<and> leaves_fields w (Rotational_step B rotational dt u p_old u_bcs p_bcs rho mu f verbose tol w)
   \<and> (agree (step_inputs u p_old f) w w' \<longrightarrow>
        fst (step B dt u p_old u_bcs p_bcs rho mu m f rot verbose tol w') =
        fst (step B dt u p_old u_bcs p_bcs rho mu m f rot verbose tol w)
      \<and> (\<forall>u1 p1. fst (step B dt u p_old u_bcs p_bcs rho mu m f rot verbose tol w) = Inr (u1, p1)
            \<longrightarrow>
             heap (snd (step B dt u p_old u_bcs p_bcs rho mu m f rot verbose tol w')) (fid u1) =
             heap (snd (step B dt u p_old u_bcs p_bcs rho mu m f rot verbose tol w)) (fid u1)
           \<and> heap (snd (step B dt u p_old u_bcs p_bcs rho mu m f rot verbose tol w')) (fid p1) =
             heap (snd (step B dt u p_old u_bcs p_bcs rho mu m f rot verbose tol w)) (fid p1)))"
proof (intro conjI impI)
  show "leaves_fields w (step B dt u p_old u_bcs p_bcs rho mu m f rot verbose tol w)"
    by (rule step_leaves_fields)
  show "leaves_fields w (Chorin_step B dt u p_old u_bcs p_bcs rho mu f verbose tol w)"
    by (rule Chorin_step_leaves_fields)
  show "leaves_fields w (IPCS_step B ipcs dt u p_old u_bcs p_bcs rho mu f verbose tol w)"
    unfolding IPCS_step_def by (rule step_leaves_fields)
  show "leaves_fields w
      (Rotational_step B rotational dt u p_old u_bcs p_bcs rho mu f verbose tol w)"
    unfolding Rotational_step_def by (rule step_leaves_fields)
next
  assume a: "agree (step_inputs u p_old f) w w'"
  note s = step_agree [OF a subset_refl, of B dt u_bcs p_bcs rho mu m rot verbose tol]
  show "fst (step B dt u p_old u_bcs p_bcs rho mu m f rot verbose tol w') =
        fst (step B dt u p_old u_bcs p_bcs rho mu m f rot verbose tol w)"
    using s by blast
  show "\<forall>u1 p1. fst (step B dt u p_old u_bcs p_bcs rho mu m f rot verbose tol w) = Inr (u1, p1)
            \<longrightarrow>
             heap (snd (step B dt u p_old u_bcs p_bcs rho mu m f rot verbose tol w')) (fid u1) =
             heap (snd (step B dt u p_old u_bcs p_bcs rho mu m f rot verbose tol w)) (fid u1)
           \<and> heap (snd (step B dt u p_old u_bcs p_bcs rho mu m f rot verbose tol w')) (fid p1) =
             heap (snd (step B dt u p_old u_bcs p_bcs rho mu m f rot verbose tol w)) (fid p1)"
    using s by blast
qed

theorem step_leaves_caller_fields_witness:
  "agree (step_inputs u_hist (Func 2 1) f_hist) world0 world0_other
   \<and> fst (step (scalar_backend True True True) 1 u_hist (Func 2 1) [] None 1 1
          ''backward euler'' f_hist True True (1 / 10 ^ 10) world0_other) =
     fst (step (scalar_backend True True True) 1 u_hist (Func 2 1) [] None 1 1
          ''backward euler'' f_hist True True (1 / 10 ^ 10) world0)
   \<and> (2::nat) < next_id world0
   \<and> heap (snd (step (scalar_backend True True True) 1 u_hist (Func 2 1) [] None 1 1
          ''backward euler'' f_hist True True (1 / 10 ^ 10) world0)) 2 = heap world0 2"
proof -
  let ?r = "step (scalar_backend True True True) 1 u_hist (Func 2 1) [] None 1 1
          ''backward euler'' f_hist True True (1 / 10 ^ 10) world0"
  have h1: "agree (step_inputs u_hist (Func 2 1) f_hist) world0 world0_other"
    by (simp add: agree_def step_inputs_def u_hist_def f_hist_def world0_def world0_other_def)
  have h2: "(2::nat) < next_id world0" by (simp add: world0_def)
  note inst = step_leaves_caller_fields [where w = world0 and w' = world0_other
      and B = "scalar_backend True True True" and dt = 1 and u = u_hist and p_old = "Func 2 1"
      and u_bcs = "[]" and p_bcs = None and rho = 1 and mu = 1 and m = "''backward euler''"
      and f = f_hist and rot = True and verbose = True and tol = "1 / 10 ^ 10"]
  have c1: "fst (step (scalar_backend True True True) 1 u_hist (Func 2 1) [] None 1 1
          ''backward euler'' f_hist True True (1 / 10 ^ 10) world0_other) = fst ?r"
    using inst h1 by blast
  have "leaves_fields world0 ?r" using inst by blast
  then have c2: "heap (snd ?r) 2 = heap world0 2"
    using h2 unfolding leaves_fields_def by blast
  show ?thesis by (intro conjI h1 h2 c1 c2)
qed

end
